theory Spec2Isabelle
  imports Main "HOL-Library.Sublist"
begin

section \<open>Python strings\<close>

text \<open>
  A Python \<^verbatim>\<open>str\<close> is a sequence of Unicode code points, so a text is a list of
  natural numbers (the code points). \<open>u\<close> turns an ASCII literal into such a list.
\<close>

type_synonym uchar = nat
type_synonym ustring = "nat list"

definition u :: "string \<Rightarrow> ustring" where
  "u s = map of_char s"

text \<open>The characters the source names: backslash, newline, and the ASCII punctuation.\<close>

definition BSL :: uchar where "BSL = 92"
definition NL :: uchar where "NL = 10"
definition DOLLAR :: uchar where "DOLLAR = 36"
definition RBRACE :: uchar where "RBRACE = 125"
definition HASH :: uchar where "HASH = 35"

text \<open>\<^verbatim>\<open>text[a:b]\<close> for indices \<open>0 \<le> a\<close>, \<open>0 \<le> b\<close>: empty when \<open>b \<le> a\<close>.\<close>

definition slice :: "ustring \<Rightarrow> nat \<Rightarrow> nat \<Rightarrow> ustring" where
  "slice t a b = take (b - a) (drop a t)"

text \<open>\<^verbatim>\<open>s.startswith(p)\<close>.\<close>

definition startswith :: "ustring \<Rightarrow> ustring \<Rightarrow> bool" where
  "startswith s p = (take (length p) s = p)"

text \<open>
  \<^verbatim>\<open>s.replace(old, new)\<close> for a non-empty \<open>old\<close> (the source never passes an empty
  one): the occurrences are found from the left and do not overlap.
\<close>

fun replace :: "ustring \<Rightarrow> ustring \<Rightarrow> ustring \<Rightarrow> ustring" where
  "replace old new [] = []"
| "replace old new (c # cs) =
     (if old \<noteq> [] \<and> startswith (c # cs) old
      then new @ replace old new (drop (length old - 1) cs)
      else c # replace old new cs)"

text \<open>\<^verbatim>\<open>sub in s\<close>.\<close>

fun contains :: "ustring \<Rightarrow> ustring \<Rightarrow> bool" where
  "contains [] sub = (sub = [])"
| "contains (c # cs) sub = (startswith (c # cs) sub \<or> contains cs sub)"

section \<open>Protected spans: the two patterns of \<^verbatim>\<open>create_latex_text\<close>\<close>

text \<open>
  A matcher looks at the text from some position on and answers with the length of the
  match that starts there, if there is one.

  \<^verbatim>\<open>\\ref\{[^}]+\}\<close>: the five characters \<^verbatim>\<open>\ref{\<close>, then one or more characters other
  than the closing brace (greedy: all of them), then the closing brace.
\<close>

definition match_ref :: "ustring \<Rightarrow> nat option" where
  "match_ref s =
     (if startswith s (BSL # u ''ref{'') then
        (let body = takeWhile (\<lambda>c. c \<noteq> RBRACE) (drop 5 s);
             rest = dropWhile (\<lambda>c. c \<noteq> RBRACE) (drop 5 s)
         in if body \<noteq> [] \<and> rest \<noteq> [] then Some (5 + length body + 1) else None)
      else None)"

text \<open>
  \<^verbatim>\<open>\$[^$]+?\$\<close>: a dollar, one or more characters other than a dollar (lazy: the
  first following dollar ends the match), and that dollar.
\<close>

definition match_math :: "ustring \<Rightarrow> nat option" where
  "match_math s =
     (case s of
        [] \<Rightarrow> None
      | c # t \<Rightarrow>
          if c = DOLLAR then
            (let body = takeWhile (\<lambda>c. c \<noteq> DOLLAR) t;
                 rest = dropWhile (\<lambda>c. c \<noteq> DOLLAR) t
             in if body \<noteq> [] \<and> rest \<noteq> [] then Some (length body + 2) else None)
          else None)"

text \<open>
  \<^verbatim>\<open>re.finditer\<close>: the matches from left to right, each as (start, end, matched text);
  the search goes on at the end of a match, and one character further where there is none.
\<close>

fun finditer :: "(ustring \<Rightarrow> nat option) \<Rightarrow> nat \<Rightarrow> ustring \<Rightarrow> (nat \<times> nat \<times> ustring) list" where
  "finditer m pos [] = []"
| "finditer m pos (c # cs) =
     (case m (c # cs) of
        Some n \<Rightarrow> (pos, pos + n, take n (c # cs)) # finditer m (pos + n) (drop (n - 1) cs)
      | None \<Rightarrow> finditer m (pos + 1) cs)"

definition ref_matches :: "ustring \<Rightarrow> (nat \<times> nat \<times> ustring) list" where
  "ref_matches text = finditer match_ref 0 text"

definition math_matches :: "ustring \<Rightarrow> (nat \<times> nat \<times> ustring) list" where
  "math_matches text = finditer match_math 0 text"

section \<open>Segments\<close>

datatype seg_type = TextSeg | RefSeg | MathSeg

type_synonym span = "seg_type \<times> nat \<times> nat \<times> ustring"
type_synonym segment = "seg_type \<times> ustring"

definition span_start :: "span \<Rightarrow> nat" where
  "span_start x = fst (snd x)"

text \<open>
  \<^verbatim>\<open>all_matches\<close>: the reference matches, then the math matches, sorted by start
  (Python's sort is stable, and so is \<open>sort_key\<close>).
\<close>

definition all_matches :: "ustring \<Rightarrow> span list" where
  "all_matches text =
     sort_key span_start
       (map (\<lambda>(s, e, c). (RefSeg, s, e, c)) (ref_matches text) @
        map (\<lambda>(s, e, c). (MathSeg, s, e, c)) (math_matches text))"

text \<open>
  The loop of step 2, with its two variables \<^verbatim>\<open>segments\<close> and \<^verbatim>\<open>last_end\<close> as the
  state.
\<close>

fun segment_loop :: "ustring \<Rightarrow> span list \<Rightarrow> segment list \<times> nat \<Rightarrow> segment list \<times> nat" where
  "segment_loop text [] st = st"
| "segment_loop text ((match_type, start, end, content) # ms) (segments, last_end) =
     segment_loop text ms
       ((if start > last_end then segments @ [(TextSeg, slice text last_end start)] else segments)
          @ [(match_type, content)],
        end)"

definition build_segments :: "ustring \<Rightarrow> segment list" where
  "build_segments text =
     (case segment_loop text (all_matches text) ([], 0) of
        (segments, last_end) \<Rightarrow>
          if last_end < length text then segments @ [(TextSeg, drop last_end text)]
          else segments)"

section \<open>Character classes\<close>

text \<open>
  Python's \<^verbatim>\<open>re\<close> on \<^verbatim>\<open>str\<close> patterns reads \<^verbatim>\<open>\s\<close> as \<^verbatim>\<open>str.isspace\<close>, \<^verbatim>\<open>\d\<close> as
  \<^verbatim>\<open>str.isdecimal\<close> and \<^verbatim>\<open>\w\<close> as \<^verbatim>\<open>str.isalnum\<close> or the underscore, and
  \<^verbatim>\<open>str.strip()\<close> removes \<^verbatim>\<open>str.isspace\<close> characters. The three classes are the
  tables of the Unicode character database (version 14.0.0, the one of CPython 3.11), as
  sorted lists of inclusive code point ranges.
\<close>

definition space_ranges :: "(nat \<times> nat) list" where
  "space_ranges =
   [(9, 13), (28, 32), (133, 133), (160, 160), (5760, 5760), (8192, 8202), (8232, 8233),
    (8239, 8239), (8287, 8287), (12288, 12288)]"

definition decimal_ranges :: "(nat \<times> nat) list" where
  "decimal_ranges =
   [(48, 57), (1632, 1641), (1776, 1785), (1984, 1993), (2406, 2415), (2534, 2543),
    (2662, 2671), (2790, 2799), (2918, 2927), (3046, 3055), (3174, 3183), (3302, 3311),
    (3430, 3439), (3558, 3567), (3664, 3673), (3792, 3801), (3872, 3881), (4160, 4169),
    (4240, 4249), (6112, 6121), (6160, 6169), (6470, 6479), (6608, 6617), (6784, 6793),
    (6800, 6809), (6992, 7001), (7088, 7097), (7232, 7241), (7248, 7257), (42528, 42537),
    (43216, 43225), (43264, 43273), (43472, 43481), (43504, 43513), (43600, 43609),
    (44016, 44025), (65296, 65305), (66720, 66729), (68912, 68921), (69734, 69743),
    (69872, 69881), (69942, 69951), (70096, 70105), (70384, 70393), (70736, 70745),
    (70864, 70873), (71248, 71257), (71360, 71369), (71472, 71481), (71904, 71913),
    (72016, 72025), (72784, 72793), (73040, 73049), (73120, 73129), (92768, 92777),
    (92864, 92873), (93008, 93017), (120782, 120831), (123200, 123209), (123632, 123641),
    (125264, 125273), (130032, 130041)]"

definition alnum_ranges :: "(nat \<times> nat) list" where
  "alnum_ranges =
   [(48, 57), (65, 90), (97, 122), (170, 170), (178, 179), (181, 181), (185, 186), (188, 190),
    (192, 214), (216, 246), (248, 705), (710, 721), (736, 740), (748, 748), (750, 750),
    (880, 884), (886, 887), (890, 893), (895, 895), (902, 902), (904, 906), (908, 908),
    (910, 929), (931, 1013), (1015, 1153), (1162, 1327), (1329, 1366), (1369, 1369),
    (1376, 1416), (1488, 1514), (1519, 1522), (1568, 1610), (1632, 1641), (1646, 1647),
    (1649, 1747), (1749, 1749), (1765, 1766), (1774, 1788), (1791, 1791), (1808, 1808),
    (1810, 1839), (1869, 1957), (1969, 1969), (1984, 2026), (2036, 2037), (2042, 2042),
    (2048, 2069), (2074, 2074), (2084, 2084), (2088, 2088), (2112, 2136), (2144, 2154),
    (2160, 2183), (2185, 2190), (2208, 2249), (2308, 2361), (2365, 2365), (2384, 2384),
    (2392, 2401), (2406, 2415), (2417, 2432), (2437, 2444), (2447, 2448), (2451, 2472),
    (2474, 2480), (2482, 2482), (2486, 2489), (2493, 2493), (2510, 2510), (2524, 2525),
    (2527, 2529), (2534, 2545), (2548, 2553), (2556, 2556), (2565, 2570), (2575, 2576),
    (2579, 2600), (2602, 2608), (2610, 2611), (2613, 2614), (2616, 2617), (2649, 2652),
    (2654, 2654), (2662, 2671), (2674, 2676), (2693, 2701), (2703, 2705), (2707, 2728),
    (2730, 2736), (2738, 2739), (2741, 2745), (2749, 2749), (2768, 2768), (2784, 2785),
    (2790, 2799), (2809, 2809), (2821, 2828), (2831, 2832), (2835, 2856), (2858, 2864),
    (2866, 2867), (2869, 2873), (2877, 2877), (2908, 2909), (2911, 2913), (2918, 2927),
    (2929, 2935), (2947, 2947), (2949, 2954), (2958, 2960), (2962, 2965), (2969, 2970),
    (2972, 2972), (2974, 2975), (2979, 2980), (2984, 2986), (2990, 3001), (3024, 3024),
    (3046, 3058), (3077, 3084), (3086, 3088), (3090, 3112), (3114, 3129), (3133, 3133),
    (3160, 3162), (3165, 3165), (3168, 3169), (3174, 3183), (3192, 3198), (3200, 3200),
    (3205, 3212), (3214, 3216), (3218, 3240), (3242, 3251), (3253, 3257), (3261, 3261),
    (3293, 3294), (3296, 3297), (3302, 3311), (3313, 3314), (3332, 3340), (3342, 3344),
    (3346, 3386), (3389, 3389), (3406, 3406), (3412, 3414), (3416, 3425), (3430, 3448),
    (3450, 3455), (3461, 3478), (3482, 3505), (3507, 3515), (3517, 3517), (3520, 3526),
    (3558, 3567), (3585, 3632), (3634, 3635), (3648, 3654), (3664, 3673), (3713, 3714),
    (3716, 3716), (3718, 3722), (3724, 3747), (3749, 3749), (3751, 3760), (3762, 3763),
    (3773, 3773), (3776, 3780), (3782, 3782), (3792, 3801), (3804, 3807), (3840, 3840),
    (3872, 3891), (3904, 3911), (3913, 3948), (3976, 3980), (4096, 4138), (4159, 4169),
    (4176, 4181), (4186, 4189), (4193, 4193), (4197, 4198), (4206, 4208), (4213, 4225),
    (4238, 4238), (4240, 4249), (4256, 4293), (4295, 4295), (4301, 4301), (4304, 4346),
    (4348, 4680), (4682, 4685), (4688, 4694), (4696, 4696), (4698, 4701), (4704, 4744),
    (4746, 4749), (4752, 4784), (4786, 4789), (4792, 4798), (4800, 4800), (4802, 4805),
    (4808, 4822), (4824, 4880), (4882, 4885), (4888, 4954), (4969, 4988), (4992, 5007),
    (5024, 5109), (5112, 5117), (5121, 5740), (5743, 5759), (5761, 5786), (5792, 5866),
    (5870, 5880), (5888, 5905), (5919, 5937), (5952, 5969), (5984, 5996), (5998, 6000),
    (6016, 6067), (6103, 6103), (6108, 6108), (6112, 6121), (6128, 6137), (6160, 6169),
    (6176, 6264), (6272, 6276), (6279, 6312), (6314, 6314), (6320, 6389), (6400, 6430),
    (6470, 6509), (6512, 6516), (6528, 6571), (6576, 6601), (6608, 6618), (6656, 6678),
    (6688, 6740), (6784, 6793), (6800, 6809), (6823, 6823), (6917, 6963), (6981, 6988),
    (6992, 7001), (7043, 7072), (7086, 7141), (7168, 7203), (7232, 7241), (7245, 7293),
    (7296, 7304), (7312, 7354), (7357, 7359), (7401, 7404), (7406, 7411), (7413, 7414),
    (7418, 7418), (7424, 7615), (7680, 7957), (7960, 7965), (7968, 8005), (8008, 8013),
    (8016, 8023), (8025, 8025), (8027, 8027), (8029, 8029), (8031, 8061), (8064, 8116),
    (8118, 8124), (8126, 8126), (8130, 8132), (8134, 8140), (8144, 8147), (8150, 8155),
    (8160, 8172), (8178, 8180), (8182, 8188), (8304, 8305), (8308, 8313), (8319, 8329),
    (8336, 8348), (8450, 8450), (8455, 8455), (8458, 8467), (8469, 8469), (8473, 8477),
    (8484, 8484), (8486, 8486), (8488, 8488), (8490, 8493), (8495, 8505), (8508, 8511),
    (8517, 8521), (8526, 8526), (8528, 8585), (9312, 9371), (9450, 9471), (10102, 10131),
    (11264, 11492), (11499, 11502), (11506, 11507), (11517, 11517), (11520, 11557),
    (11559, 11559), (11565, 11565), (11568, 11623), (11631, 11631), (11648, 11670),
    (11680, 11686), (11688, 11694), (11696, 11702), (11704, 11710), (11712, 11718),
    (11720, 11726), (11728, 11734), (11736, 11742), (11823, 11823), (12293, 12295),
    (12321, 12329), (12337, 12341), (12344, 12348), (12353, 12438), (12445, 12447),
    (12449, 12538), (12540, 12543), (12549, 12591), (12593, 12686), (12690, 12693),
    (12704, 12735), (12784, 12799), (12832, 12841), (12872, 12879), (12881, 12895),
    (12928, 12937), (12977, 12991), (13312, 19903), (19968, 42124), (42192, 42237),
    (42240, 42508), (42512, 42539), (42560, 42606), (42623, 42653), (42656, 42735),
    (42775, 42783), (42786, 42888), (42891, 42954), (42960, 42961), (42963, 42963),
    (42965, 42969), (42994, 43009), (43011, 43013), (43015, 43018), (43020, 43042),
    (43056, 43061), (43072, 43123), (43138, 43187), (43216, 43225), (43250, 43255),
    (43259, 43259), (43261, 43262), (43264, 43301), (43312, 43334), (43360, 43388),
    (43396, 43442), (43471, 43481), (43488, 43492), (43494, 43518), (43520, 43560),
    (43584, 43586), (43588, 43595), (43600, 43609), (43616, 43638), (43642, 43642),
    (43646, 43695), (43697, 43697), (43701, 43702), (43705, 43709), (43712, 43712),
    (43714, 43714), (43739, 43741), (43744, 43754), (43762, 43764), (43777, 43782),
    (43785, 43790), (43793, 43798), (43808, 43814), (43816, 43822), (43824, 43866),
    (43868, 43881), (43888, 44002), (44016, 44025), (44032, 55203), (55216, 55238),
    (55243, 55291), (63744, 64109), (64112, 64217), (64256, 64262), (64275, 64279),
    (64285, 64285), (64287, 64296), (64298, 64310), (64312, 64316), (64318, 64318),
    (64320, 64321), (64323, 64324), (64326, 64433), (64467, 64829), (64848, 64911),
    (64914, 64967), (65008, 65019), (65136, 65140), (65142, 65276), (65296, 65305),
    (65313, 65338), (65345, 65370), (65382, 65470), (65474, 65479), (65482, 65487),
    (65490, 65495), (65498, 65500), (65536, 65547), (65549, 65574), (65576, 65594),
    (65596, 65597), (65599, 65613), (65616, 65629), (65664, 65786), (65799, 65843),
    (65856, 65912), (65930, 65931), (66176, 66204), (66208, 66256), (66273, 66299),
    (66304, 66339), (66349, 66378), (66384, 66421), (66432, 66461), (66464, 66499),
    (66504, 66511), (66513, 66517), (66560, 66717), (66720, 66729), (66736, 66771),
    (66776, 66811), (66816, 66855), (66864, 66915), (66928, 66938), (66940, 66954),
    (66956, 66962), (66964, 66965), (66967, 66977), (66979, 66993), (66995, 67001),
    (67003, 67004), (67072, 67382), (67392, 67413), (67424, 67431), (67456, 67461),
    (67463, 67504), (67506, 67514), (67584, 67589), (67592, 67592), (67594, 67637),
    (67639, 67640), (67644, 67644), (67647, 67669), (67672, 67702), (67705, 67742),
    (67751, 67759), (67808, 67826), (67828, 67829), (67835, 67867), (67872, 67897),
    (67968, 68023), (68028, 68047), (68050, 68096), (68112, 68115), (68117, 68119),
    (68121, 68149), (68160, 68168), (68192, 68222), (68224, 68255), (68288, 68295),
    (68297, 68324), (68331, 68335), (68352, 68405), (68416, 68437), (68440, 68466),
    (68472, 68497), (68521, 68527), (68608, 68680), (68736, 68786), (68800, 68850),
    (68858, 68899), (68912, 68921), (69216, 69246), (69248, 69289), (69296, 69297),
    (69376, 69415), (69424, 69445), (69457, 69460), (69488, 69505), (69552, 69579),
    (69600, 69622), (69635, 69687), (69714, 69743), (69745, 69746), (69749, 69749),
    (69763, 69807), (69840, 69864), (69872, 69881), (69891, 69926), (69942, 69951),
    (69956, 69956), (69959, 69959), (69968, 70002), (70006, 70006), (70019, 70066),
    (70081, 70084), (70096, 70106), (70108, 70108), (70113, 70132), (70144, 70161),
    (70163, 70187), (70272, 70278), (70280, 70280), (70282, 70285), (70287, 70301),
    (70303, 70312), (70320, 70366), (70384, 70393), (70405, 70412), (70415, 70416),
    (70419, 70440), (70442, 70448), (70450, 70451), (70453, 70457), (70461, 70461),
    (70480, 70480), (70493, 70497), (70656, 70708), (70727, 70730), (70736, 70745),
    (70751, 70753), (70784, 70831), (70852, 70853), (70855, 70855), (70864, 70873),
    (71040, 71086), (71128, 71131), (71168, 71215), (71236, 71236), (71248, 71257),
    (71296, 71338), (71352, 71352), (71360, 71369), (71424, 71450), (71472, 71483),
    (71488, 71494), (71680, 71723), (71840, 71922), (71935, 71942), (71945, 71945),
    (71948, 71955), (71957, 71958), (71960, 71983), (71999, 71999), (72001, 72001),
    (72016, 72025), (72096, 72103), (72106, 72144), (72161, 72161), (72163, 72163),
    (72192, 72192), (72203, 72242), (72250, 72250), (72272, 72272), (72284, 72329),
    (72349, 72349), (72368, 72440), (72704, 72712), (72714, 72750), (72768, 72768),
    (72784, 72812), (72818, 72847), (72960, 72966), (72968, 72969), (72971, 73008),
    (73030, 73030), (73040, 73049), (73056, 73061), (73063, 73064), (73066, 73097),
    (73112, 73112), (73120, 73129), (73440, 73458), (73648, 73648), (73664, 73684),
    (73728, 74649), (74752, 74862), (74880, 75075), (77712, 77808), (77824, 78894),
    (82944, 83526), (92160, 92728), (92736, 92766), (92768, 92777), (92784, 92862),
    (92864, 92873), (92880, 92909), (92928, 92975), (92992, 92995), (93008, 93017),
    (93019, 93025), (93027, 93047), (93053, 93071), (93760, 93846), (93952, 94026),
    (94032, 94032), (94099, 94111), (94176, 94177), (94179, 94179), (94208, 100343),
    (100352, 101589), (101632, 101640), (110576, 110579), (110581, 110587), (110589, 110590),
    (110592, 110882), (110928, 110930), (110948, 110951), (110960, 111355), (113664, 113770),
    (113776, 113788), (113792, 113800), (113808, 113817), (119520, 119539), (119648, 119672),
    (119808, 119892), (119894, 119964), (119966, 119967), (119970, 119970), (119973, 119974),
    (119977, 119980), (119982, 119993), (119995, 119995), (119997, 120003), (120005, 120069),
    (120071, 120074), (120077, 120084), (120086, 120092), (120094, 120121), (120123, 120126),
    (120128, 120132), (120134, 120134), (120138, 120144), (120146, 120485), (120488, 120512),
    (120514, 120538), (120540, 120570), (120572, 120596), (120598, 120628), (120630, 120654),
    (120656, 120686), (120688, 120712), (120714, 120744), (120746, 120770), (120772, 120779),
    (120782, 120831), (122624, 122654), (123136, 123180), (123191, 123197), (123200, 123209),
    (123214, 123214), (123536, 123565), (123584, 123627), (123632, 123641), (124896, 124902),
    (124904, 124907), (124909, 124910), (124912, 124926), (124928, 125124), (125127, 125135),
    (125184, 125251), (125259, 125259), (125264, 125273), (126065, 126123), (126125, 126127),
    (126129, 126132), (126209, 126253), (126255, 126269), (126464, 126467), (126469, 126495),
    (126497, 126498), (126500, 126500), (126503, 126503), (126505, 126514), (126516, 126519),
    (126521, 126521), (126523, 126523), (126530, 126530), (126535, 126535), (126537, 126537),
    (126539, 126539), (126541, 126543), (126545, 126546), (126548, 126548), (126551, 126551),
    (126553, 126553), (126555, 126555), (126557, 126557), (126559, 126559), (126561, 126562),
    (126564, 126564), (126567, 126570), (126572, 126578), (126580, 126583), (126585, 126588),
    (126590, 126590), (126592, 126601), (126603, 126619), (126625, 126627), (126629, 126633),
    (126635, 126651), (127232, 127244), (130032, 130041), (131072, 173791), (173824, 177976),
    (177984, 178205), (178208, 183969), (183984, 191456), (194560, 195101), (196608, 201546)]"

text \<open>Lookup in a sorted table: the search ends at the first range that starts beyond \<open>c\<close>.\<close>

fun in_ranges :: "nat \<Rightarrow> (nat \<times> nat) list \<Rightarrow> bool" where
  "in_ranges c [] = False"
| "in_ranges c ((lo, hi) # rs) =
     (if c < lo then False else if c \<le> hi then True else in_ranges c rs)"

definition isspace :: "uchar \<Rightarrow> bool" where
  "isspace c = in_ranges c space_ranges"

definition isdecimal :: "uchar \<Rightarrow> bool" where
  "isdecimal c = in_ranges c decimal_ranges"

definition isword :: "uchar \<Rightarrow> bool" where
  "isword c = (c = 95 \<or> in_ranges c alnum_ranges)"

text \<open>\<^verbatim>\<open>s.strip()\<close>.\<close>

definition strip :: "ustring \<Rightarrow> ustring" where
  "strip s = rev (dropWhile isspace (rev (dropWhile isspace s)))"

text \<open>\<^verbatim>\<open>s.split('\n')\<close> and \<^verbatim>\<open>'\n'.join(ls)\<close>.\<close>

fun split_nl :: "ustring \<Rightarrow> ustring list" where
  "split_nl [] = [[]]"
| "split_nl (c # cs) =
     (if c = NL then [] # split_nl cs
      else (case split_nl cs of [] \<Rightarrow> [[c]] | l # ls \<Rightarrow> (c # l) # ls))"

fun join_nl :: "ustring list \<Rightarrow> ustring" where
  "join_nl [] = []"
| "join_nl [l] = l"
| "join_nl (l # ls) = l @ NL # join_nl ls"

section \<open>Regular expression substitution\<close>

text \<open>
  \<^verbatim>\<open>re.sub\<close> for a pattern that never matches the empty string: a matcher answers, for
  the text from some position on, with the replacement and the length of the match; the
  scan goes on after the match, or one character further.
\<close>

fun re_sub :: "(ustring \<Rightarrow> (ustring \<times> nat) option) \<Rightarrow> ustring \<Rightarrow> ustring" where
  "re_sub m [] = []"
| "re_sub m (c # cs) =
     (case m (c # cs) of
        Some (rep, n) \<Rightarrow> rep @ re_sub m (drop (n - 1) cs)
      | None \<Rightarrow> c # re_sub m cs)"

text \<open>\<^verbatim>\<open>\[(\w+)\]\<close> to \<^verbatim>\<open>\\cite{\1}\<close>.\<close>

definition match_cite :: "ustring \<Rightarrow> (ustring \<times> nat) option" where
  "match_cite s =
     (case s of
        [] \<Rightarrow> None
      | c # t \<Rightarrow>
          if c = 91 then
            (let w = takeWhile isword t; rest = dropWhile isword t
             in if w \<noteq> [] \<and> startswith rest (u '']'')
                then Some (BSL # u ''cite{'' @ w @ u ''}'', length w + 2) else None)
          else None)"

text \<open>
  A heading pattern such as \<^verbatim>\<open>^# (.+)$\<close> under \<^verbatim>\<open>re.MULTILINE\<close>: \<^verbatim>\<open>^\<close> matches at
  the start of the text and after each newline, \<^verbatim>\<open>.\<close> matches every character but the
  newline, \<^verbatim>\<open>$\<close> matches at the end of the text and before each newline. So the
  substitution rewrites each line that starts with the prefix and has at least one more
  character.
\<close>

definition sub_heading :: "ustring \<Rightarrow> ustring \<Rightarrow> ustring \<Rightarrow> ustring" where
  "sub_heading marker command text =
     join_nl (map (\<lambda>l. if startswith l marker \<and> length marker < length l
                        then BSL # command @ u ''{'' @ drop (length marker) l @ u ''}''
                        else l)
                  (split_nl text))"

text \<open>
  The lazy group \<^verbatim>\<open>(.+?)\<close> before a closing delimiter: the least \<open>k \<ge> 1\<close> such that
  the first \<open>k\<close> characters hold no newline and the delimiter follows them.
\<close>

fun find_close :: "ustring \<Rightarrow> ustring \<Rightarrow> nat option" where
  "find_close d [] = None"
| "find_close d (c # cs) =
     (if c = NL then None
      else if startswith cs d then Some 1
      else map_option Suc (find_close d cs))"

text \<open>\<^verbatim>\<open>\*\*(.+?)\*\*\<close> to \<^verbatim>\<open>\\textbf{\1}\<close> and \<^verbatim>\<open>\*(.+?)\*\<close> to \<^verbatim>\<open>\\textit{\1}\<close>.\<close>

definition match_emph :: "ustring \<Rightarrow> ustring \<Rightarrow> ustring \<Rightarrow> (ustring \<times> nat) option" where
  "match_emph d command s =
     (if startswith s d then
        (case find_close d (drop (length d) s) of
           None \<Rightarrow> None
         | Some k \<Rightarrow>
             Some (BSL # command @ u ''{'' @ take k (drop (length d) s) @ u ''}'',
                   k + 2 * length d))
      else None)"

text \<open>\<^verbatim>\<open>(\d+)%\<close> to \<^verbatim>\<open>\1\\%\<close>.\<close>

definition match_percent :: "ustring \<Rightarrow> (ustring \<times> nat) option" where
  "match_percent s =
     (let d = takeWhile isdecimal s; rest = dropWhile isdecimal s
      in if d \<noteq> [] \<and> startswith rest (u ''%'')
         then Some (d @ BSL # u ''%'', length d + 1) else None)"

text \<open>
  \<^verbatim>\<open>(\d+)\s*([\<mu>\<mu>])[mM]\<close> to \<^verbatim>\<open>\1 $\\mu$m\<close>, and the same with \<^verbatim>\<open>[Aa]\<close> and \<^verbatim>\<open>A\<close>:
  the class in the middle holds the micro sign U+00B5 and the Greek letter U+03BC.
\<close>

definition match_micro :: "uchar list \<Rightarrow> ustring \<Rightarrow> ustring \<Rightarrow> (ustring \<times> nat) option" where
  "match_micro units unit s =
     (let d = takeWhile isdecimal s; r1 = dropWhile isdecimal s;
          ws = takeWhile isspace r1; r2 = dropWhile isspace r1
      in case r2 of
           a # b # _ \<Rightarrow>
             if d \<noteq> [] \<and> (a = 0xB5 \<or> a = 0x3BC) \<and> b \<in> set units
             then Some (d @ u '' $'' @ BSL # u ''mu$'' @ unit, length d + length ws + 2)
             else None
         | _ \<Rightarrow> None)"

section \<open>\<^verbatim>\<open>process_plain_text\<close>\<close>

text \<open>
  The three dictionaries, in their insertion order (the order in which Python iterates
  over a dictionary).
\<close>

definition replacements :: "(ustring \<times> ustring) list" where
  "replacements =
     [(u ''&'', BSL # u ''&''),
      (u ''%'', BSL # u ''%''),
      (u ''#'', BSL # u ''#''),
      (u ''_'', BSL # u ''_''),
      (u ''{'', BSL # u ''{''),
      (u ''}'', BSL # u ''}''),
      (u ''~'', BSL # u ''textasciitilde{}''),
      (u ''^'', BSL # u ''textasciicircum{}''),
      ([BSL], BSL # u ''textbackslash{}''),
      (u ''$'', BSL # u ''$'')]"

definition polish_chars :: "(ustring \<times> ustring) list" where
  "polish_chars =
     [([0x105], BSL # u ''k{a}''),
      ([0x107], BSL # 39 # u ''c''),
      ([0x119], BSL # u ''k{e}''),
      ([0x142], BSL # u ''l{}''),
      ([0x144], BSL # 39 # u ''n''),
      ([0xF3], BSL # 39 # u ''o''),
      ([0x15B], BSL # 39 # u ''s''),
      ([0x17A], BSL # 39 # u ''z''),
      ([0x17C], BSL # u ''.z''),
      ([0x104], BSL # u ''k{A}''),
      ([0x106], BSL # 39 # u ''C''),
      ([0x118], BSL # u ''k{E}''),
      ([0x141], BSL # u ''L{}''),
      ([0x143], BSL # 39 # u ''N''),
      ([0xD3], BSL # 39 # u ''O''),
      ([0x15A], BSL # 39 # u ''S''),
      ([0x179], BSL # 39 # u ''Z''),
      ([0x17B], BSL # u ''.Z'')]"

definition special_chars :: "(ustring \<times> ustring) list" where
  "special_chars =
     [([0x3BC], u ''$'' @ BSL # u ''mu$''),
      ([0xB1], u ''$'' @ BSL # u ''pm$''),
      ([0xB0], u ''$^{'' @ BSL # u ''circ}$''),
      ([0x2248], u ''$'' @ BSL # u ''approx$''),
      ([0x2265], u ''$'' @ BSL # u ''geq$''),
      ([0x2264], u ''$'' @ BSL # u ''leq$''),
      ([0x207B], u ''$^{-}$''),
      ([0xB9], u ''$^{1}$''),
      ([0xB2], u ''$^{2}$''),
      ([0xB3], u ''$^{3}$''),
      ([0x2074], u ''$^{4}$''),
      ([0x2075], u ''$^{5}$''),
      ([0x2076], u ''$^{6}$''),
      ([0x2077], u ''$^{7}$''),
      ([0x2078], u ''$^{8}$''),
      ([0x2079], u ''$^{9}$''),
      ([0x2070], u ''$^{0}$''),
      ([0x2081], u ''$_{1}$''),
      ([0x2082], u ''$_{2}$''),
      ([0x2083], u ''$_{3}$''),
      ([0x2084], u ''$_{4}$'')]"

text \<open>\<^verbatim>\<open>for char, replacement in table.items(): text = text.replace(char, replacement)\<close>.\<close>

fun replace_all :: "(ustring \<times> ustring) list \<Rightarrow> ustring \<Rightarrow> ustring" where
  "replace_all [] text = text"
| "replace_all ((char, replacement) # table) text =
     replace_all table (replace char replacement text)"

definition process_plain_text :: "ustring \<Rightarrow> ustring" where
  "process_plain_text text0 =
     (let text = replace_all replacements text0;
          text = replace_all polish_chars text;
          text = replace_all special_chars text;
          text = re_sub match_cite text;
          text = sub_heading (u ''# '') (u ''chapter'') text;
          text = sub_heading (u ''## '') (u ''section'') text;
          text = sub_heading (u ''### '') (u ''subsection'') text;
          text = sub_heading (u ''#### '') (u ''subsubsection'') text;
          text = re_sub (match_emph (u ''**'') (u ''textbf'')) text;
          text = re_sub (match_emph (u ''*'') (u ''textit'')) text;
          text = re_sub match_percent text;
          text = replace (u ''~70%'') (BSL # u ''textasciitilde{}70'' @ BSL # u ''%'') text;
          text = re_sub (match_micro (u ''mM'') (u ''m'')) text;
          text = re_sub (match_micro (u ''Aa'') (u ''A'')) text
      in text)"

section \<open>\<^verbatim>\<open>create_latex_text\<close>\<close>

text \<open>Step 3: plain segments are formatted, protected ones are taken as they are.\<close>

fun process_segment :: "segment \<Rightarrow> ustring" where
  "process_segment (segment_type, content) =
     (if segment_type = TextSeg then process_plain_text content else content)"

text \<open>Steps 3 and 4 (the join), before the final replacement of step 5.\<close>

definition joined_segments :: "ustring \<Rightarrow> ustring" where
  "joined_segments text = concat (map process_segment (build_segments text))"

definition create_latex_text :: "ustring \<Rightarrow> ustring" where
  "create_latex_text text =
     replace [NL, NL] (NL # BSL # u ''par'' @ [NL]) (joined_segments text)"

section \<open>Content blocks\<close>

text \<open>
  A content block is a dictionary with the keys \<^verbatim>\<open>type\<close> and \<^verbatim>\<open>data\<close>; \<^verbatim>\<open>data\<close> is a
  dictionary of which the renderers read the keys below. A key that is absent is \<open>None\<close>.
\<close>

record block_data =
  d_text :: "ustring option"
  d_textPath :: "ustring option"
  d_imagePath :: "ustring option"
  d_tableData :: "ustring list list option"
  d_code :: "ustring option"
  d_language :: "ustring option"
  d_equation :: "ustring option"
  d_caption :: "ustring option"
  d_label :: "ustring option"

record content_block =
  block_type :: ustring
  block_data :: block_data

text \<open>
  The collaborators outside the conversion: \<^verbatim>\<open>load_external_text(text_path, page_dir)\<close>,
  which reads a file and answers with the empty string when it cannot, and the path
  arithmetic of \<^verbatim>\<open>process_image\<close> (\<^verbatim>\<open>os.path.isabs\<close>, \<^verbatim>\<open>join\<close> and \<^verbatim>\<open>relpath\<close>), which
  turns the image path and the page directory into the path that is written out.
\<close>

record environment =
  load_external_text :: "ustring \<Rightarrow> ustring \<Rightarrow> ustring"
  image_relative_path :: "ustring \<Rightarrow> ustring \<Rightarrow> ustring"

text \<open>\<^verbatim>\<open>d.get(key, default)\<close>.\<close>

definition get_default :: "'a option \<Rightarrow> 'a \<Rightarrow> 'a" where
  "get_default v dflt = (case v of None \<Rightarrow> dflt | Some x \<Rightarrow> x)"

text \<open>The optional \<^verbatim>\<open>\caption{...}\<close> and \<^verbatim>\<open>\label{...}\<close> lines shared by the renderers.\<close>

definition caption_line :: "ustring \<Rightarrow> ustring" where
  "caption_line caption =
     (if caption \<noteq> [] then BSL # u ''caption{'' @ create_latex_text caption @ u ''}'' @ [NL]
      else [])"

definition label_line :: "ustring \<Rightarrow> ustring" where
  "label_line label = (if label \<noteq> [] then BSL # u ''label{'' @ label @ u ''}'' @ [NL] else [])"

definition process_image :: "environment \<Rightarrow> content_block \<Rightarrow> ustring \<Rightarrow> ustring" where
  "process_image env content_block page_dir =
     (let data = block_data content_block;
          image_path = get_default (d_imagePath data) [];
          relative_path = image_relative_path env image_path page_dir;
          caption = get_default (d_caption data) [];
          label = get_default (d_label data) []
      in BSL # u ''begin{figure}[htbp]'' @ [NL] @ BSL # u ''centering'' @ [NL]
         @ BSL # u ''includegraphics[width=0.8'' @ BSL # u ''textwidth]{'' @ relative_path
         @ u ''}'' @ [NL]
         @ caption_line caption @ label_line label
         @ BSL # u ''end{figure}'' @ [NL])"

text \<open>\<^verbatim>\<open>sep.join(items)\<close>.\<close>

fun join :: "ustring \<Rightarrow> ustring list \<Rightarrow> ustring" where
  "join sep [] = []"
| "join sep [x] = x"
| "join sep (x # xs) = x @ sep @ join sep xs"

definition process_table :: "content_block \<Rightarrow> ustring" where
  "process_table content_block =
     (let data = block_data content_block;
          table_data = get_default (d_tableData data) [];
          caption = get_default (d_caption data) [];
          label = get_default (d_label data) []
      in case table_data of
           [] \<Rightarrow> []
         | first_row # _ \<Rightarrow>
             BSL # u ''begin{table}[htbp]'' @ [NL] @ BSL # u ''centering'' @ [NL]
             @ BSL # u ''begin{tabular}{'' @ join (u ''|'') (replicate (length first_row) (u ''c''))
             @ u ''}'' @ [NL] @ BSL # u ''hline'' @ [NL]
             @ concat (map (\<lambda>row. join (u '' & '') (map create_latex_text row)
                                  @ u '' '' @ [BSL, BSL] @ u '' '' @ BSL # u ''hline'' @ [NL])
                           table_data)
             @ BSL # u ''end{tabular}'' @ [NL]
             @ caption_line caption @ label_line label
             @ BSL # u ''end{table}'' @ [NL])"

definition process_code :: "content_block \<Rightarrow> ustring" where
  "process_code content_block =
     (let data = block_data content_block;
          code = get_default (d_code data) [];
          language = get_default (d_language data) (u ''text'');
          caption = get_default (d_caption data) [];
          label = get_default (d_label data) []
      in BSL # u ''begin{listing}[H]'' @ [NL]
         @ BSL # u ''begin{minted}[breaklines, linenos]{'' @ language @ u ''}'' @ [NL]
         @ code @ [NL]
         @ BSL # u ''end{minted}'' @ [NL]
         @ caption_line caption @ label_line label
         @ BSL # u ''end{listing}'' @ [NL])"

definition process_equation :: "content_block \<Rightarrow> ustring" where
  "process_equation content_block =
     (let data = block_data content_block;
          equation = get_default (d_equation data) [];
          label = get_default (d_label data) []
      in BSL # u ''begin{equation}'' @ [NL]
         @ label_line label
         @ equation @ [NL]
         @ BSL # u ''end{equation}'' @ [NL])"

section \<open>Text blocks: headings and lists\<close>

text \<open>The count of the leading \<^verbatim>\<open>#\<close> characters, as the \<^verbatim>\<open>for\<close> loop with \<^verbatim>\<open>break\<close> finds it.\<close>

fun heading_level :: "ustring \<Rightarrow> nat" where
  "heading_level [] = 0"
| "heading_level (char # rest) = (if char = HASH then heading_level rest + 1 else 0)"

text \<open>The chain \<^verbatim>\<open>if heading_level == 1: ... else: \paragraph\<close>.\<close>

definition heading_command :: "nat \<Rightarrow> ustring" where
  "heading_command level =
     (if level = 1 then u ''chapter''
      else if level = 2 then u ''section''
      else if level = 3 then u ''subsection''
      else if level = 4 then u ''subsubsection''
      else u ''paragraph'')"

definition heading :: "nat \<Rightarrow> ustring \<Rightarrow> ustring" where
  "heading level content = BSL # heading_command level @ u ''{'' @ content @ u ''}''"

text \<open>The first pass of the \<^verbatim>\<open>textPath\<close> branch, on one line of the external text.\<close>

definition process_line :: "ustring \<Rightarrow> ustring" where
  "process_line line =
     (if startswith (strip line) [HASH] then
        (let level = heading_level (strip line);
             text_content = strip (drop level (strip line))
         in heading level (create_latex_text text_content))
      else line)"

text \<open>
  The list pass: the outer \<^verbatim>\<open>while i < len(lines)\<close> and, inside it, the loop over the
  consecutive items, both with the index \<^verbatim>\<open>i\<close> and the list \<^verbatim>\<open>final_result\<close> as state.
\<close>

definition is_item :: "ustring \<Rightarrow> bool" where
  "is_item line = startswith (strip line) (u ''- '')"

definition item_line :: "ustring \<Rightarrow> ustring" where
  "item_line line = BSL # u ''item '' @ drop 2 (strip line)"

definition begin_itemize :: ustring where
  "begin_itemize = BSL # u ''begin{itemize}''"

definition end_itemize :: ustring where
  "end_itemize = BSL # u ''end{itemize}''"

function item_loop :: "ustring list \<Rightarrow> nat \<Rightarrow> ustring list \<Rightarrow> nat \<times> ustring list" where
  "item_loop lines i final_result =
     (if i < length lines \<and> is_item (lines ! i)
      then item_loop lines (i + 1) (final_result @ [item_line (lines ! i)])
      else (i, final_result))"
  by pat_completeness auto
termination
  by (relation "measure (\<lambda>(lines, i, final_result). length lines - i)") auto

declare item_loop.simps [simp del]

lemma item_loop_index:
  "item_loop lines i r = (i', r') \<Longrightarrow> i \<le> i' \<and> (i < length lines \<and> is_item (lines ! i) \<longrightarrow> i < i')"
proof (induction lines i r arbitrary: i' r' rule: item_loop.induct)
  case (1 lines i final_result)
  show ?case
  proof (cases "i < length lines \<and> is_item (lines ! i)")
    case True
    with "1.prems" have "item_loop lines (i + 1) (final_result @ [item_line (lines ! i)]) = (i', r')"
      by (simp add: item_loop.simps [of lines i final_result])
    from "1.IH" [OF True this] show ?thesis by simp
  next
    case False
    with "1.prems" show ?thesis
      by (auto simp: item_loop.simps [of lines i final_result])
  qed
qed

lemma item_loop_progress:
  "(i', r') = item_loop lines i r \<Longrightarrow> i < length lines \<Longrightarrow> is_item (lines ! i) \<Longrightarrow>
     length lines - i' < length lines - i"
  using item_loop_index [of lines i r i' r'] by (simp add: diff_less_mono2)

function list_loop :: "ustring list \<Rightarrow> nat \<Rightarrow> ustring list \<Rightarrow> ustring list" where
  "list_loop lines i final_result =
     (if i < length lines then
        (if is_item (lines ! i) then
           (case item_loop lines i (final_result @ [begin_itemize]) of
              (i', final_result') \<Rightarrow> list_loop lines i' (final_result' @ [end_itemize]))
         else list_loop lines (i + 1) (final_result @ [lines ! i]))
      else final_result)"
  by pat_completeness auto
termination
  apply (relation "measure (\<lambda>(lines, i, final_result). length lines - i)")
    apply simp
   apply (auto dest: item_loop_progress)
  done

declare list_loop.simps [simp del]

definition convert_lists :: "ustring \<Rightarrow> ustring" where
  "convert_lists result = join_nl (list_loop (split_nl result) 0 [])"

section \<open>\<^verbatim>\<open>process_content_block\<close>\<close>

text \<open>
  The result is the fragment together with the warnings that the call logs itself (what
  the collaborators log is theirs).
\<close>

datatype log_entry = Warning ustring

definition process_text_block :: "environment \<Rightarrow> block_data \<Rightarrow> ustring \<Rightarrow> ustring \<times> log_entry list" where
  "process_text_block env data page_dir =
     (case d_text data of
        Some text \<Rightarrow>
          if startswith text [HASH] then
            (let level = heading_level text;
                 text_content = strip (drop level text)
             in (heading level (create_latex_text text_content) @ [NL, NL], []))
          else (create_latex_text text @ [NL, NL], [])
      | None \<Rightarrow>
          (case d_textPath data of
             Some text_path \<Rightarrow>
               (let external_text = load_external_text env text_path page_dir;
                    processed_text = join_nl (map process_line (split_nl external_text));
                    result = create_latex_text processed_text
                in (convert_lists result, []))
           | None \<Rightarrow>
               ([], [Warning (u ''Text block is missing both '' @ 39 # u ''text'' @ 39 # u '' and ''
                              @ 39 # u ''textPath'' @ [39])])))"

definition process_content_block :: "environment \<Rightarrow> content_block \<Rightarrow> ustring \<Rightarrow> ustring \<times> log_entry list" where
  "process_content_block env content_block page_dir =
     (let type = block_type content_block in
      if type = u ''text'' then process_text_block env (block_data content_block) page_dir
      else if type = u ''image'' then (process_image env content_block page_dir @ [NL], [])
      else if type = u ''table'' then (process_table content_block @ [NL], [])
      else if type = u ''code'' then (process_code content_block @ [NL], [])
      else if type = u ''equation'' then (process_equation content_block @ [NL], [])
      else if type = u ''listing'' then (process_code content_block @ [NL], [])
      else ([], [Warning (u ''Unknown content block type: '' @ type)]))"
section \<open>Blocks as \<^verbatim>\<open>json.load\<close> delivers them\<close>

text \<open>
  The records above describe a block of the shape the renderers expect. The source itself
  checks no shape: \<^verbatim>\<open>process_content_block\<close> receives whatever \<^verbatim>\<open>json.load\<close> made of the page
  file and subscripts it, so a block without a \<^verbatim>\<open>data\<close> entry, or with an entry that is no
  string, makes it raise. To say what happens then, the functions are given a second time
  on Python values, with the exception as a result; on a block of the expected shape they
  return what the functions above return (lemma \<open>process_content_block_py_typed\<close>).

  The values \<^verbatim>\<open>json.load\<close> produces: \<^verbatim>\<open>None\<close>, \<^verbatim>\<open>bool\<close>, \<^verbatim>\<open>int\<close>, \<^verbatim>\<open>float\<close> (sign, mantissa
  and binary exponent of a finite one), \<^verbatim>\<open>str\<close>, \<^verbatim>\<open>list\<close> and \<^verbatim>\<open>dict\<close>. A dictionary is the
  list of its items in insertion order; its keys are strings and distinct.
\<close>

datatype py_float = Finite bool nat int | Infinite bool | NaN

datatype py_value =
    PyNone
  | PyBool bool
  | PyInt int
  | PyFloat py_float
  | PyStr ustring
  | PyList "py_value list"
  | PyDict "(ustring \<times> py_value) list"

text \<open>The exceptions that the operations on these values raise.\<close>

datatype py_exception = KeyError | TypeError | AttributeError | IndexError

type_synonym 'a result = "py_exception + 'a"

text \<open>One statement after the other: an exception ends the sequence.\<close>

definition and_then :: "'a result \<Rightarrow> ('a \<Rightarrow> 'b result) \<Rightarrow> 'b result" where
  "and_then r f = (case r of Inl e \<Rightarrow> Inl e | Inr v \<Rightarrow> f v)"

text \<open>The items of a list of computations, up to the first that raises.\<close>

fun sequence :: "'a result list \<Rightarrow> 'a list result" where
  "sequence [] = Inr []"
| "sequence (r # rs) = and_then r (\<lambda>v. and_then (sequence rs) (\<lambda>vs. Inr (v # vs)))"

text \<open>\<^verbatim>\<open>if v:\<close>, the truth value of a value.\<close>

fun truthy :: "py_value \<Rightarrow> bool" where
  "truthy PyNone = False"
| "truthy (PyBool b) = b"
| "truthy (PyInt n) = (n \<noteq> 0)"
| "truthy (PyFloat (Finite negative mantissa exponent)) = (mantissa \<noteq> 0)"
| "truthy (PyFloat (Infinite negative)) = True"
| "truthy (PyFloat NaN) = True"
| "truthy (PyStr s) = (s \<noteq> [])"
| "truthy (PyList xs) = (xs \<noteq> [])"
| "truthy (PyDict items) = (items \<noteq> [])"

text \<open>
  \<^verbatim>\<open>v[key]\<close> for a string \<open>key\<close>: a dictionary without the key raises \<^verbatim>\<open>KeyError\<close>, a
  value that is no dictionary \<^verbatim>\<open>TypeError\<close>.
\<close>

fun subscript :: "py_value \<Rightarrow> ustring \<Rightarrow> py_value result" where
  "subscript (PyDict items) key = (case map_of items key of None \<Rightarrow> Inl KeyError | Some v \<Rightarrow> Inr v)"
| "subscript PyNone key = Inl TypeError"
| "subscript (PyBool b) key = Inl TypeError"
| "subscript (PyInt n) key = Inl TypeError"
| "subscript (PyFloat x) key = Inl TypeError"
| "subscript (PyStr s) key = Inl TypeError"
| "subscript (PyList xs) key = Inl TypeError"

text \<open>
  \<^verbatim>\<open>key in v\<close> for a string \<open>key\<close>: a key of the dictionary, an element of the list, a
  substring of the string; the other values are not containers.
\<close>

fun py_in :: "ustring \<Rightarrow> py_value \<Rightarrow> bool result" where
  "py_in key (PyDict items) = Inr (map_of items key \<noteq> None)"
| "py_in key (PyList xs) = Inr (PyStr key \<in> set xs)"
| "py_in key (PyStr s) = Inr (contains s key)"
| "py_in key PyNone = Inl TypeError"
| "py_in key (PyBool b) = Inl TypeError"
| "py_in key (PyInt n) = Inl TypeError"
| "py_in key (PyFloat x) = Inl TypeError"

text \<open>\<^verbatim>\<open>v.get(key, default)\<close>: only a dictionary has the method.\<close>

fun dict_get :: "py_value \<Rightarrow> ustring \<Rightarrow> py_value \<Rightarrow> py_value result" where
  "dict_get (PyDict items) key dflt = Inr (case map_of items key of None \<Rightarrow> dflt | Some v \<Rightarrow> v)"
| "dict_get PyNone key dflt = Inl AttributeError"
| "dict_get (PyBool b) key dflt = Inl AttributeError"
| "dict_get (PyInt n) key dflt = Inl AttributeError"
| "dict_get (PyFloat x) key dflt = Inl AttributeError"
| "dict_get (PyStr s) key dflt = Inl AttributeError"
| "dict_get (PyList xs) key dflt = Inl AttributeError"

text \<open>\<^verbatim>\<open>v[0]\<close>: no key of a dictionary made from JSON is the number 0.\<close>

fun first_item :: "py_value \<Rightarrow> py_value result" where
  "first_item (PyList []) = Inl IndexError"
| "first_item (PyList (x # xs)) = Inr x"
| "first_item (PyStr []) = Inl IndexError"
| "first_item (PyStr (c # cs)) = Inr (PyStr [c])"
| "first_item (PyDict items) = Inl KeyError"
| "first_item PyNone = Inl TypeError"
| "first_item (PyBool b) = Inl TypeError"
| "first_item (PyInt n) = Inl TypeError"
| "first_item (PyFloat x) = Inl TypeError"

text \<open>\<^verbatim>\<open>len(v)\<close>.\<close>

fun py_len :: "py_value \<Rightarrow> nat result" where
  "py_len (PyList xs) = Inr (length xs)"
| "py_len (PyStr s) = Inr (length s)"
| "py_len (PyDict items) = Inr (length items)"
| "py_len PyNone = Inl TypeError"
| "py_len (PyBool b) = Inl TypeError"
| "py_len (PyInt n) = Inl TypeError"
| "py_len (PyFloat x) = Inl TypeError"

text \<open>
  \<^verbatim>\<open>for x in v\<close>: the elements of a list, the characters of a string, the keys of a
  dictionary.
\<close>

fun py_iter :: "py_value \<Rightarrow> py_value list result" where
  "py_iter (PyList xs) = Inr xs"
| "py_iter (PyStr s) = Inr (map (\<lambda>c. PyStr [c]) s)"
| "py_iter (PyDict items) = Inr (map (\<lambda>(key, v). PyStr key) items)"
| "py_iter PyNone = Inl TypeError"
| "py_iter (PyBool b) = Inl TypeError"
| "py_iter (PyInt n) = Inl TypeError"
| "py_iter (PyFloat x) = Inl TypeError"

text \<open>
  A value used where only a string works. \<^verbatim>\<open>os.path.isabs(v)\<close>, \<^verbatim>\<open>re.finditer(pattern, v)\<close>
  and \<^verbatim>\<open>v + "\n"\<close> raise \<^verbatim>\<open>TypeError\<close> for any other value, the method call
  \<^verbatim>\<open>v.startswith('#')\<close> raises \<^verbatim>\<open>AttributeError\<close>.
\<close>

definition as_str :: "py_exception \<Rightarrow> py_value \<Rightarrow> ustring result" where
  "as_str e v = (case v of PyStr s \<Rightarrow> Inr s | _ \<Rightarrow> Inl e)"

text \<open>
  A value inside an f-string, \<^verbatim>\<open>f"{v}"\<close>: a string stands for itself, any other value for
  its \<^verbatim>\<open>str(v)\<close>, which is a parameter \<open>py_str\<close> of the functions below.
\<close>

definition format :: "(py_value \<Rightarrow> ustring) \<Rightarrow> py_value \<Rightarrow> ustring" where
  "format py_str v = (case v of PyStr s \<Rightarrow> s | _ \<Rightarrow> py_str v)"

text \<open>
  \<^verbatim>\<open>if caption: latex += f"\\caption{{{create_latex_text(caption)}}}\n"\<close> and
  \<^verbatim>\<open>if label: latex += f"\\label{{{label}}}\n"\<close>.
\<close>

definition caption_line_py :: "py_value \<Rightarrow> ustring result" where
  "caption_line_py caption =
     (if truthy caption then
        and_then (as_str TypeError caption) (\<lambda>caption.
        Inr (BSL # u ''caption{'' @ create_latex_text caption @ u ''}'' @ [NL]))
      else Inr [])"

definition label_line_py :: "(py_value \<Rightarrow> ustring) \<Rightarrow> py_value \<Rightarrow> ustring" where
  "label_line_py py_str label =
     (if truthy label then BSL # u ''label{'' @ format py_str label @ u ''}'' @ [NL] else [])"

definition process_image_py ::
  "environment \<Rightarrow> (py_value \<Rightarrow> ustring) \<Rightarrow> py_value \<Rightarrow> ustring \<Rightarrow> ustring result" where
  "process_image_py env py_str content_block page_dir =
     and_then (subscript content_block (u ''data'')) (\<lambda>data.
     and_then (dict_get data (u ''imagePath'') (PyStr [])) (\<lambda>image_path.
     and_then (as_str TypeError image_path) (\<lambda>image_path.
     let relative_path = image_relative_path env image_path page_dir in
     and_then (dict_get data (u ''caption'') (PyStr [])) (\<lambda>caption.
     and_then (dict_get data (u ''label'') (PyStr [])) (\<lambda>label.
     and_then (caption_line_py caption) (\<lambda>caption_line.
     Inr (BSL # u ''begin{figure}[htbp]'' @ [NL] @ BSL # u ''centering'' @ [NL]
          @ BSL # u ''includegraphics[width=0.8'' @ BSL # u ''textwidth]{'' @ relative_path
          @ u ''}'' @ [NL]
          @ caption_line @ label_line_py py_str label
          @ BSL # u ''end{figure}'' @ [NL])))))))"

text \<open>One row of the table: \<^verbatim>\<open>" & ".join([create_latex_text(cell) for cell in row])\<close>.\<close>

definition table_row :: "py_value \<Rightarrow> ustring result" where
  "table_row row =
     and_then (py_iter row) (\<lambda>cells.
     and_then (sequence (map (\<lambda>cell. and_then (as_str TypeError cell)
                                          (\<lambda>cell. Inr (create_latex_text cell))) cells)) (\<lambda>cells.
     Inr (join (u '' & '') cells @ u '' '' @ [BSL, BSL] @ u '' '' @ BSL # u ''hline'' @ [NL])))"

definition process_table_py :: "(py_value \<Rightarrow> ustring) \<Rightarrow> py_value \<Rightarrow> ustring result" where
  "process_table_py py_str content_block =
     and_then (subscript content_block (u ''data'')) (\<lambda>data.
     and_then (dict_get data (u ''tableData'') (PyList [])) (\<lambda>table_data.
     and_then (dict_get data (u ''caption'') (PyStr [])) (\<lambda>caption.
     and_then (dict_get data (u ''label'') (PyStr [])) (\<lambda>label.
     if \<not> truthy table_data then Inr []
     else
       and_then (first_item table_data) (\<lambda>first_row.
       and_then (py_len first_row) (\<lambda>num_cols.
       and_then (py_iter table_data) (\<lambda>rows.
       and_then (sequence (map table_row rows)) (\<lambda>row_lines.
       and_then (caption_line_py caption) (\<lambda>caption_line.
       Inr (BSL # u ''begin{table}[htbp]'' @ [NL] @ BSL # u ''centering'' @ [NL]
            @ BSL # u ''begin{tabular}{'' @ join (u ''|'') (replicate num_cols (u ''c''))
            @ u ''}'' @ [NL] @ BSL # u ''hline'' @ [NL]
            @ concat row_lines
            @ BSL # u ''end{tabular}'' @ [NL]
            @ caption_line @ label_line_py py_str label
            @ BSL # u ''end{table}'' @ [NL]))))))))))"

definition process_code_py :: "(py_value \<Rightarrow> ustring) \<Rightarrow> py_value \<Rightarrow> ustring result" where
  "process_code_py py_str content_block =
     and_then (subscript content_block (u ''data'')) (\<lambda>data.
     and_then (dict_get data (u ''code'') (PyStr [])) (\<lambda>code.
     and_then (dict_get data (u ''language'') (PyStr (u ''text''))) (\<lambda>language.
     and_then (dict_get data (u ''caption'') (PyStr [])) (\<lambda>caption.
     and_then (dict_get data (u ''label'') (PyStr [])) (\<lambda>label.
     and_then (as_str TypeError code) (\<lambda>code.
     and_then (caption_line_py caption) (\<lambda>caption_line.
     Inr (BSL # u ''begin{listing}[H]'' @ [NL]
          @ BSL # u ''begin{minted}[breaklines, linenos]{'' @ format py_str language @ u ''}'' @ [NL]
          @ code @ [NL]
          @ BSL # u ''end{minted}'' @ [NL]
          @ caption_line @ label_line_py py_str label
          @ BSL # u ''end{listing}'' @ [NL]))))))))"

definition process_equation_py :: "(py_value \<Rightarrow> ustring) \<Rightarrow> py_value \<Rightarrow> ustring result" where
  "process_equation_py py_str content_block =
     and_then (subscript content_block (u ''data'')) (\<lambda>data.
     and_then (dict_get data (u ''equation'') (PyStr [])) (\<lambda>equation.
     and_then (dict_get data (u ''label'') (PyStr [])) (\<lambda>label.
     and_then (as_str TypeError equation) (\<lambda>equation.
     Inr (BSL # u ''begin{equation}'' @ [NL]
          @ label_line_py py_str label
          @ equation @ [NL]
          @ BSL # u ''end{equation}'' @ [NL])))))"

text \<open>
  The branch \<^verbatim>\<open>block_type == 'text'\<close>. Every use of \<^verbatim>\<open>content_block['data']\<close> in it is the
  same subscript, so it is taken once; \<^verbatim>\<open>load_external_text\<close> calls \<^verbatim>\<open>os.path.isabs\<close> on
  the path before its \<^verbatim>\<open>try\<close>.
\<close>

definition process_text_block_py ::
  "environment \<Rightarrow> py_value \<Rightarrow> ustring \<Rightarrow> (ustring \<times> log_entry list) result" where
  "process_text_block_py env content_block page_dir =
     and_then (subscript content_block (u ''data'')) (\<lambda>data.
     and_then (py_in (u ''text'') data) (\<lambda>has_text.
     if has_text then
       and_then (dict_get data (u ''text'') (PyStr [])) (\<lambda>text.
       and_then (as_str AttributeError text) (\<lambda>text.
       Inr (if startswith text [HASH] then
              (let level = heading_level text;
                   text_content = strip (drop level text)
               in (heading level (create_latex_text text_content) @ [NL, NL], []))
            else (create_latex_text text @ [NL, NL], []))))
     else
       and_then (py_in (u ''textPath'') data) (\<lambda>has_text_path.
       if has_text_path then
         and_then (dict_get data (u ''textPath'') (PyStr [])) (\<lambda>text_path.
         and_then (as_str TypeError text_path) (\<lambda>text_path.
         Inr (let external_text = load_external_text env text_path page_dir;
                  processed_text = join_nl (map process_line (split_nl external_text));
                  result = create_latex_text processed_text
              in (convert_lists result, []))))
       else
         Inr ([], [Warning (u ''Text block is missing both '' @ 39 # u ''text'' @ 39 # u '' and ''
                            @ 39 # u ''textPath'' @ [39])]))))"

definition process_content_block_py ::
  "environment \<Rightarrow> (py_value \<Rightarrow> ustring) \<Rightarrow> py_value \<Rightarrow> ustring \<Rightarrow> (ustring \<times> log_entry list) result" where
  "process_content_block_py env py_str content_block page_dir =
     and_then (subscript content_block (u ''type'')) (\<lambda>block_type.
     if block_type = PyStr (u ''text'') then process_text_block_py env content_block page_dir
     else if block_type = PyStr (u ''image'') then
       and_then (process_image_py env py_str content_block page_dir) (\<lambda>latex. Inr (latex @ [NL], []))
     else if block_type = PyStr (u ''table'') then
       and_then (process_table_py py_str content_block) (\<lambda>latex. Inr (latex @ [NL], []))
     else if block_type = PyStr (u ''code'') then
       and_then (process_code_py py_str content_block) (\<lambda>latex. Inr (latex @ [NL], []))
     else if block_type = PyStr (u ''equation'') then
       and_then (process_equation_py py_str content_block) (\<lambda>latex. Inr (latex @ [NL], []))
     else if block_type = PyStr (u ''listing'') then
       and_then (process_code_py py_str content_block) (\<lambda>latex. Inr (latex @ [NL], []))
     else Inr ([], [Warning (u ''Unknown content block type: '' @ format py_str block_type)]))"

text \<open>A block of the records above as the value that \<^verbatim>\<open>json.load\<close> delivers for it.\<close>

definition entry :: "ustring \<Rightarrow> 'a option \<Rightarrow> ('a \<Rightarrow> py_value) \<Rightarrow> (ustring \<times> py_value) list" where
  "entry key v to_value = (case v of None \<Rightarrow> [] | Some x \<Rightarrow> [(key, to_value x)])"

definition data_value :: "block_data \<Rightarrow> py_value" where
  "data_value data =
     PyDict (entry (u ''text'') (d_text data) PyStr
             @ entry (u ''textPath'') (d_textPath data) PyStr
             @ entry (u ''imagePath'') (d_imagePath data) PyStr
             @ entry (u ''tableData'') (d_tableData data)
                 (\<lambda>rows. PyList (map (\<lambda>row. PyList (map PyStr row)) rows))
             @ entry (u ''code'') (d_code data) PyStr
             @ entry (u ''language'') (d_language data) PyStr
             @ entry (u ''equation'') (d_equation data) PyStr
             @ entry (u ''caption'') (d_caption data) PyStr
             @ entry (u ''label'') (d_label data) PyStr)"

definition block_value :: "content_block \<Rightarrow> py_value" where
  "block_value content_block =
     PyDict [(u ''type'', PyStr (block_type content_block)),
             (u ''data'', data_value (block_data content_block))]"

section \<open>The output file\<close>

text \<open>
  \<^verbatim>\<open>open(output_file, 'w', encoding='ascii', errors='backslashreplace')\<close>: a character
  outside ASCII is written as \<^verbatim>\<open>\xhh\<close>, \<^verbatim>\<open>\uhhhh\<close> or \<^verbatim>\<open>\Uhhhhhhhh\<close> with the lower-case
  hexadecimal digits of its code point (a newline is written as it is where \<^verbatim>\<open>os.linesep\<close>
  is the newline).
\<close>

definition hex_digit :: "nat \<Rightarrow> uchar" where
  "hex_digit d = (if d < 10 then 48 + d else 87 + d)"

fun hex :: "nat \<Rightarrow> nat \<Rightarrow> ustring" where
  "hex 0 n = []"
| "hex (Suc width) n = hex width (n div 16) @ [hex_digit (n mod 16)]"

definition backslashreplace :: "uchar \<Rightarrow> ustring" where
  "backslashreplace c =
     (if c < 128 then [c]
      else if c < 256 then BSL # 120 # hex 2 c
      else if c < 65536 then BSL # 117 # hex 4 c
      else BSL # 85 # hex 8 c)"

definition encode_ascii :: "ustring \<Rightarrow> ustring" where
  "encode_ascii s = concat (map backslashreplace s)"
section \<open>The block loop of \<^verbatim>\<open>process_page\<close>\<close>

text \<open>
  \<^verbatim>\<open>for content_block in page_data.get('content', [])\<close>, with the body
  \<^verbatim>\<open>try: latex_content = process_content_block(content_block, page_dir); f.write(latex_content)\<close>
  and \<^verbatim>\<open>except Exception as e: logger.error(...); return False\<close>. Each fragment is written
  to the output file as soon as it is returned, encoded as the file was opened. An
  exception out of \<^verbatim>\<open>process_content_block\<close> ends \<^verbatim>\<open>process_page\<close>: the error is logged,
  the function returns \<^verbatim>\<open>False\<close>, the blocks that follow are not looked at, and the file
  keeps what was written before. The result is what the loop wrote to the file, the warnings
  that the blocks logged, and the exception on which \<^verbatim>\<open>process_page\<close> returned \<^verbatim>\<open>False\<close>
  (\<open>None\<close> when the loop ran to its end).
\<close>

fun write_blocks ::
  "environment \<Rightarrow> (py_value \<Rightarrow> ustring) \<Rightarrow> py_value list \<Rightarrow> ustring
     \<Rightarrow> ustring \<times> log_entry list \<times> py_exception option" where
  "write_blocks env py_str [] page_dir = ([], [], None)"
| "write_blocks env py_str (content_block # blocks) page_dir =
     (case process_content_block_py env py_str content_block page_dir of
        Inl e \<Rightarrow> ([], [], Some e)
      | Inr (latex_content, warnings) \<Rightarrow>
          (case write_blocks env py_str blocks page_dir of
             (written, log, raised) \<Rightarrow>
               (encode_ascii latex_content @ written, warnings @ log, raised)))"

section \<open>Blocks and environments to state the claims with\<close>

definition empty_data :: block_data where
  "empty_data =
     \<lparr>d_text = None, d_textPath = None, d_imagePath = None, d_tableData = None,
      d_code = None, d_language = None, d_equation = None, d_caption = None, d_label = None\<rparr>"

text \<open>\<^verbatim>\<open>{"type": "text", "data": {"text": t}}\<close> and \<^verbatim>\<open>{"type": "text", "data": {"textPath": p}}\<close>.\<close>

definition inline_text_block :: "ustring \<Rightarrow> content_block" where
  "inline_text_block t = \<lparr>block_type = u ''text'', block_data = empty_data\<lparr>d_text := Some t\<rparr>\<rparr>"

definition external_text_block :: "ustring \<Rightarrow> content_block" where
  "external_text_block p = \<lparr>block_type = u ''text'', block_data = empty_data\<lparr>d_textPath := Some p\<rparr>\<rparr>"

text \<open>The first of them as the value that \<^verbatim>\<open>json.load\<close> delivers.\<close>

definition text_value :: "ustring \<Rightarrow> py_value" where
  "text_value t =
     PyDict [(u ''type'', PyStr (u ''text'')), (u ''data'', PyDict [(u ''text'', PyStr t)])]"

text \<open>An environment in which every text file holds the given content.\<close>

definition file_env :: "ustring \<Rightarrow> environment" where
  "file_env content =
     \<lparr>load_external_text = (\<lambda>text_path page_dir. content),
      image_relative_path = (\<lambda>image_path page_dir. image_path)\<rparr>"

text \<open>
  The list pass in the words of the specification: a line whose trimmed content starts
  with \<^verbatim>\<open>- \<close> opens a list region; the consecutive such lines become its items; the
  first line that is no item, or the end of the input, closes it.
\<close>

function itemize_regions :: "ustring list \<Rightarrow> ustring list" where
  "itemize_regions [] = []"
| "itemize_regions (l # ls) =
     (if is_item l
      then begin_itemize # map item_line (l # takeWhile is_item ls)
             @ end_itemize # itemize_regions (dropWhile is_item ls)
      else l # itemize_regions ls)"
  by pat_completeness auto
termination
  by (relation "measure length") (auto simp: length_dropWhile_le less_Suc_eq_le)

section \<open>Spans in order\<close>

text \<open>
  What the statements about the segmenter need: the end and the text of a span, a span
  that lies in the text and holds the text between its offsets, spans that follow one
  another from an offset on, and spans that do not overlap. The matches of one pattern
  never overlap one another; \<open>spans_disjoint\<close> says that no reference match overlaps a
  math match.
\<close>

definition span_end :: "span \<Rightarrow> nat" where
  "span_end x = fst (snd (snd x))"

definition span_content :: "span \<Rightarrow> ustring" where
  "span_content x = snd (snd (snd x))"

definition span_in :: "ustring \<Rightarrow> span \<Rightarrow> bool" where
  "span_in text x =
     (span_start x < span_end x \<and> span_end x \<le> length text \<and>
      span_content x = slice text (span_start x) (span_end x))"

fun chain :: "ustring \<Rightarrow> nat \<Rightarrow> span list \<Rightarrow> bool" where
  "chain text lo [] = True"
| "chain text lo (x # xs) = (lo \<le> span_start x \<and> span_in text x \<and> chain text (span_end x) xs)"

definition spans_disjoint :: "ustring \<Rightarrow> bool" where
  "spans_disjoint text =
     (\<forall>(s, e, c) \<in> set (ref_matches text). \<forall>(s', e', c') \<in> set (math_matches text).
        e \<le> s' \<or> e' \<le> s)"

definition separate :: "span \<Rightarrow> span \<Rightarrow> bool" where
  "separate x y = (span_end x \<le> span_start y \<or> span_end y \<le> span_start x)"

text \<open>
  A text of ASCII characters none of which the formatter reacts to: no structural
  character, no bracket, no asterisk, no digit.
\<close>

definition plain :: "ustring \<Rightarrow> bool" where
  "plain s =
     list_all (\<lambda>c. c < 128 \<and> c \<notin> set (u ''&%#_{}~^$[*'') \<and> c \<noteq> BSL \<and> \<not> isdecimal c) s"


section \<open>Substitutions that leave a text alone\<close>

text \<open>
  A replacement whose first character does not occur in the text changes nothing, and
  neither does a substitution whose pattern needs a character that does not occur.
\<close>

lemma replace_noop: "old \<noteq> [] \<Longrightarrow> hd old \<notin> set s \<Longrightarrow> replace old new s = s"
  by (induction s) (auto simp: startswith_def neq_Nil_conv)

lemma replace_all_noop:
  "\<forall>p \<in> set table. fst p \<noteq> [] \<and> hd (fst p) \<notin> set s \<Longrightarrow> replace_all table s = s"
  by (induction table) (auto simp: replace_noop)

lemma polish_chars_heads: "\<forall>p \<in> set polish_chars. fst p \<noteq> [] \<and> 128 \<le> hd (fst p)"
  by (simp add: polish_chars_def)

lemma special_chars_heads: "\<forall>p \<in> set special_chars. fst p \<noteq> [] \<and> 128 \<le> hd (fst p)"
  by (simp add: special_chars_def)

lemma replace_all_ascii:
  assumes "\<forall>p \<in> set table. fst p \<noteq> [] \<and> 128 \<le> hd (fst p)" and "\<forall>c \<in> set s. c < 128"
  shows "replace_all table s = s"
proof (rule replace_all_noop, rule ballI)
  fix p assume "p \<in> set table"
  with assms(1) have "fst p \<noteq> []" and "128 \<le> hd (fst p)" by auto
  moreover from \<open>128 \<le> hd (fst p)\<close> assms(2) have "hd (fst p) \<notin> set s" by auto
  ultimately show "fst p \<noteq> [] \<and> hd (fst p) \<notin> set s" by simp
qed

lemma re_sub_noop:
  "(\<And>t. t \<noteq> [] \<Longrightarrow> set t \<subseteq> set s \<Longrightarrow> m t = None) \<Longrightarrow> re_sub m s = s"
proof (induction s)
  case Nil
  then show ?case by simp
next
  case (Cons c cs)
  have "m (c # cs) = None" by (rule Cons.prems) auto
  moreover have "re_sub m cs = cs"
    by (rule Cons.IH, rule Cons.prems) auto
  ultimately show ?case by simp
qed

lemma match_cite_None: "91 \<notin> set t \<Longrightarrow> match_cite t = None"
  by (cases t) (auto simp: match_cite_def)

lemma match_emph_None: "d \<noteq> [] \<Longrightarrow> hd d \<notin> set t \<Longrightarrow> match_emph d command t = None"
  by (cases t; cases d) (auto simp: match_emph_def startswith_def)

lemma match_micro_None:
  assumes "0xB5 \<notin> set t" and "0x3BC \<notin> set t"
  shows "match_micro units unit t = None"
proof -
  have "set (dropWhile isspace (dropWhile isdecimal t)) \<subseteq> set t"
    by (meson set_dropWhileD subsetI)
  with assms show ?thesis
    unfolding match_micro_def Let_def by (auto split: list.splits)
qed

lemma split_nl_not_Nil: "split_nl s \<noteq> []"
  by (induction s) (auto split: list.splits)

lemma join_nl_Cons: "join_nl ((c # l) # ls) = c # join_nl (l # ls)"
  by (cases ls) simp_all

lemma join_split_nl: "join_nl (split_nl s) = s"
proof (induction s)
  case Nil
  then show ?case by simp
next
  case (Cons c cs)
  obtain l ls where sp: "split_nl cs = l # ls"
    using split_nl_not_Nil [of cs] by (cases "split_nl cs") auto
  show ?case
  proof (cases "c = NL")
    case True
    with Cons sp show ?thesis by simp
  next
    case False
    with Cons sp show ?thesis by (simp add: join_nl_Cons)
  qed
qed

lemma split_nl_subset: "l \<in> set (split_nl s) \<Longrightarrow> set l \<subseteq> set s"
proof (induction s arbitrary: l)
  case Nil
  then show ?case by simp
next
  case (Cons c cs)
  obtain l0 ls where sp: "split_nl cs = l0 # ls"
    using split_nl_not_Nil [of cs] by (cases "split_nl cs") auto
  show ?case
  proof (cases "c = NL")
    case True
    with Cons show ?thesis by auto
  next
    case False
    with Cons.prems sp have "l = c # l0 \<or> l \<in> set ls" by simp
    then show ?thesis
    proof
      assume "l = c # l0"
      moreover have "set l0 \<subseteq> set cs" by (rule Cons.IH) (simp add: sp)
      ultimately show ?thesis by auto
    next
      assume "l \<in> set ls"
      then have "set l \<subseteq> set cs" by (intro Cons.IH) (simp add: sp)
      then show ?thesis by auto
    qed
  qed
qed

lemma sub_heading_noop:
  assumes "marker \<noteq> []" and "hd marker \<notin> set s"
  shows "sub_heading marker command s = s"
proof -
  have "\<not> startswith l marker" if "l \<in> set (split_nl s)" for l
  proof
    assume "startswith l marker"
    with assms(1) have "hd marker \<in> set l"
      by (cases l; cases marker) (auto simp: startswith_def)
    with split_nl_subset [OF that] assms(2) show False by auto
  qed
  then have "map (\<lambda>l. if startswith l marker \<and> length marker < length l
                        then BSL # command @ u ''{'' @ drop (length marker) l @ u ''}''
                        else l) (split_nl s) = split_nl s"
    by (intro map_idI) simp
  then show ?thesis by (simp add: sub_heading_def join_split_nl)
qed

lemma process_plain_text_eval:
  assumes t: "replace_all replacements s = t"
    and t_ok: "list_all (\<lambda>c. c < 128 \<and> c \<noteq> 91 \<and> c \<noteq> 42 \<and> c \<noteq> 35) t"
    and r: "re_sub match_percent t = r"
    and r_ok: "list_all (\<lambda>c. c < 128 \<and> c \<noteq> 126) r"
  shows "process_plain_text s = r"
proof -
  from t_ok have ascii: "\<forall>c \<in> set t. c < 128" and no91: "91 \<notin> set t"
    and no42: "42 \<notin> set t" and no35: "35 \<notin> set t"
    by (auto simp: list_all_iff)
  from r_ok have r_ascii: "\<forall>c \<in> set r. c < 128" and no126: "126 \<notin> set r"
    by (auto simp: list_all_iff)
  have s2: "replace_all polish_chars t = t"
    by (rule replace_all_ascii [OF polish_chars_heads ascii])
  have s3: "replace_all special_chars t = t"
    by (rule replace_all_ascii [OF special_chars_heads ascii])
  have s4: "re_sub match_cite t = t"
    by (rule re_sub_noop, rule match_cite_None) (use no91 in auto)
  have s5: "sub_heading p c t = t" if "hd p = 35" "p \<noteq> []" for p c
    by (rule sub_heading_noop) (use that no35 in auto)
  have s6: "re_sub (match_emph p c) t = t" if "hd p = 42" "p \<noteq> []" for p c
    by (rule re_sub_noop, rule match_emph_None) (use that no42 in auto)
  have s7: "replace old new r = r" if "hd old = 126" "old \<noteq> []" for old new
    by (rule replace_noop) (use that no126 in auto)
  have s8: "re_sub (match_micro units unit) r = r" for units unit
    by (rule re_sub_noop, rule match_micro_None) (use r_ascii in force)+
  show ?thesis
    unfolding process_plain_text_def Let_def t s2 s3 s4
    by (simp add: s5 s6 s7 s8 r u_def)
qed

lemmas eval_defs = replacements_def u_def BSL_def NL_def startswith_def match_percent_def
  isdecimal_def decimal_ranges_def

section \<open>The escaping of the structural characters\<close>

text \<open>
  Claim C3: \<^verbatim>\<open>process_plain_text\<close> maps each structural character to its literal-safe
  markup, and the backslash substitution leaves alone what the earlier substitutions
  inserted, so that \<^verbatim>\<open>&\<close> becomes \<^verbatim>\<open>\&\<close> and \<^verbatim>\<open>~\<close> becomes \<^verbatim>\<open>\textasciitilde{}\<close>.
  The code does otherwise: the dictionary is walked in insertion order, the backslash
  entry comes after the ampersand and the tilde, and it rewrites the backslashes that
  those entries have just inserted. The results are \<^verbatim>\<open>\textbackslash{}&\<close> and
  \<^verbatim>\<open>\textbackslash{}textasciitilde{}\<close>.
\<close>

theorem C3_backslash_rewrites_inserted_escapes:
  "process_plain_text (u ''&'') = BSL # u ''textbackslash{}&'' \<and>
   process_plain_text (u ''~'') = BSL # u ''textbackslash{}textasciitilde{}'' \<and>
   process_plain_text (u ''&'') \<noteq> BSL # u ''&'' \<and>
   process_plain_text (u ''~'') \<noteq> BSL # u ''textasciitilde{}''"
proof -
  have amp: "process_plain_text (u ''&'') = BSL # u ''textbackslash{}&''"
    by (rule process_plain_text_eval [where t = "BSL # u ''textbackslash{}&''"])
       (simp_all add: eval_defs)
  have tilde: "process_plain_text (u ''~'') = BSL # u ''textbackslash{}textasciitilde{}''"
    by (rule process_plain_text_eval [where t = "BSL # u ''textbackslash{}textasciitilde{}''"])
       (simp_all add: eval_defs)
  show ?thesis
    unfolding amp tilde by (simp add: u_def BSL_def)
qed

text \<open>
  Claim C4: a digit sequence followed by a percent sign is rewritten to the escaped
  percent form, \<^verbatim>\<open>70%\<close> to \<^verbatim>\<open>70\%\<close>, and \<^verbatim>\<open>~70%\<close> to \<^verbatim>\<open>\textasciitilde{}70\%\<close>.
  The code does otherwise, by the same defect as in C3: when the numeric patterns run, the
  percent sign has already become \<^verbatim>\<open>\textbackslash{}%\<close> and the tilde
  \<^verbatim>\<open>\textbackslash{}textasciitilde{}\<close>, so neither the pattern \<^verbatim>\<open>(\d+)%\<close> nor the literal
  \<^verbatim>\<open>~70%\<close> is found.
\<close>

theorem C4_percent_patterns_never_fire:
  "process_plain_text (u ''70%'') = u ''70'' @ BSL # u ''textbackslash{}%'' \<and>
   process_plain_text (u ''~70%'') =
     BSL # u ''textbackslash{}textasciitilde{}70'' @ BSL # u ''textbackslash{}%'' \<and>
   process_plain_text (u ''70%'') \<noteq> u ''70'' @ BSL # u ''%'' \<and>
   process_plain_text (u ''~70%'') \<noteq> BSL # u ''textasciitilde{}70'' @ BSL # u ''%''"
proof -
  have p: "process_plain_text (u ''70%'') = u ''70'' @ BSL # u ''textbackslash{}%''"
    by (rule process_plain_text_eval [where t = "u ''70'' @ BSL # u ''textbackslash{}%''"])
       (simp_all add: eval_defs)
  have t: "process_plain_text (u ''~70%'') =
      BSL # u ''textbackslash{}textasciitilde{}70'' @ BSL # u ''textbackslash{}%''"
    by (rule process_plain_text_eval
          [where t = "BSL # u ''textbackslash{}textasciitilde{}70'' @ BSL # u ''textbackslash{}%''"])
       (simp_all add: eval_defs)
  show ?thesis
    unfolding p t by (simp add: u_def BSL_def)
qed


section \<open>The segmenter\<close>

text \<open>
  Both patterns match a non-empty piece of the text they are given, so the matches that
  \<^verbatim>\<open>finditer\<close> yields lie in the text, in order, one after the end of the other.
\<close>

lemma match_ref_bounds: "match_ref s = Some n \<Longrightarrow> 0 < n \<and> n \<le> length s"
proof -
  assume a: "match_ref s = Some n"
  let ?body = "takeWhile (\<lambda>c. c \<noteq> RBRACE) (drop 5 s)"
  let ?rest = "dropWhile (\<lambda>c. c \<noteq> RBRACE) (drop 5 s)"
  from a have n: "n = 5 + length ?body + 1" and r: "?rest \<noteq> []"
    by (auto simp: match_ref_def Let_def split: if_splits)
  have sum: "length ?body + length ?rest = length (drop 5 s)"
    by (metis length_append takeWhile_dropWhile_id)
  from r have pos: "0 < length ?rest"
    using length_greater_0_conv by blast
  from a have "startswith s (BSL # u ''ref{'')"
    by (auto simp: match_ref_def split: if_splits)
  then have "length (take (length (BSL # u ''ref{'')) s) = length (BSL # u ''ref{'')"
    unfolding startswith_def by (rule arg_cong)
  then have five: "5 \<le> length s"
    by (simp add: u_def)
  have "length (drop 5 s) = length s - 5"
    by simp
  with sum pos five n show ?thesis
    by linarith
qed

lemma match_math_bounds: "match_math s = Some n \<Longrightarrow> 0 < n \<and> n \<le> length s"
proof -
  assume a: "match_math s = Some n"
  then obtain c t where s: "s = c # t"
    by (cases s) (auto simp: match_math_def)
  let ?body = "takeWhile (\<lambda>c. c \<noteq> DOLLAR) t"
  let ?rest = "dropWhile (\<lambda>c. c \<noteq> DOLLAR) t"
  from a s have n: "n = length ?body + 2" and r: "?rest \<noteq> []"
    by (auto simp: match_math_def Let_def split: if_splits)
  have sum: "length ?body + length ?rest = length t"
    by (metis length_append takeWhile_dropWhile_id)
  from r have pos: "0 < length ?rest"
    using length_greater_0_conv by blast
  from s have "length s = Suc (length t)"
    by simp
  with sum pos n show ?thesis
    by linarith
qed

lemma finditer_chain:
  "\<forall>s n. m s = Some n \<longrightarrow> 0 < n \<and> n \<le> length s \<Longrightarrow> rest = drop pos text \<Longrightarrow>
     chain text pos (map (\<lambda>(s, e, c). (k, s, e, c)) (finditer m pos rest))"
proof (induction m pos rest rule: finditer.induct)
  case (1 m pos)
  then show ?case by simp
next
  case (2 m pos c cs)
  note bounds = "2.prems"(1) and rest = "2.prems"(2)
  show ?case
  proof (cases "m (c # cs)")
    case None
    have "cs = drop 1 (c # cs)"
      by simp
    also have "\<dots> = drop 1 (drop pos text)"
      by (simp only: rest)
    finally have "cs = drop (pos + 1) text"
      by simp
    with None bounds
    have "chain text (pos + 1) (map (\<lambda>(s, e, c). (k, s, e, c)) (finditer m (pos + 1) cs))"
      by (intro "2.IH"(1))
    then have "chain text pos (map (\<lambda>(s, e, c). (k, s, e, c)) (finditer m (pos + 1) cs))"
      by (cases "finditer m (pos + 1) cs") (auto simp: span_start_def)
    with None show ?thesis by simp
  next
    case (Some n)
    from bounds Some have "0 < n \<and> n \<le> length (c # cs)"
      by (elim allE [of _ "c # cs"] allE [of _ n] impE) simp_all
    then have n0: "0 < n" and n1: "n \<le> length (c # cs)"
      by simp_all
    from n0 have d: "drop (n - 1) cs = drop n (c # cs)"
      by (cases n) simp_all
    have "drop n (c # cs) = drop n (drop pos text)"
      by (simp only: rest)
    also have "\<dots> = drop (pos + n) text"
      by (simp add: add.commute)
    finally have r: "drop (n - 1) cs = drop (pos + n) text"
      using d by simp
    have "length (c # cs) = length (drop pos text)"
      by (simp only: rest)
    then have "Suc (length cs) = length text - pos"
      by simp
    with n1 have len: "pos + n \<le> length text"
      by simp
    have "chain text (pos + n) (map (\<lambda>(s, e, c). (k, s, e, c)) (finditer m (pos + n) (drop (n - 1) cs)))"
      using Some bounds r by (intro "2.IH"(2))
    moreover have "span_in text (k, pos, pos + n, take n (c # cs))"
      using n0 len rest by (simp add: span_in_def span_start_def span_end_def span_content_def slice_def)
    ultimately show ?thesis
      using Some by (simp add: span_start_def span_end_def)
  qed
qed

lemma chain_facts:
  "chain text lo ms \<Longrightarrow>
     (\<forall>x \<in> set ms. lo \<le> span_start x \<and> span_in text x) \<and> distinct ms \<and>
     (\<forall>x \<in> set ms. \<forall>y \<in> set ms. x = y \<or> separate x y)"
proof (induction ms arbitrary: lo)
  case Nil
  then show ?case by simp
next
  case (Cons x xs)
  from Cons.prems have lo: "lo \<le> span_start x" and x: "span_in text x"
    and rest: "chain text (span_end x) xs"
    by simp_all
  from Cons.IH [OF rest]
  have after: "\<forall>y \<in> set xs. span_end x \<le> span_start y \<and> span_in text y"
    and dist: "distinct xs"
    and pair: "\<forall>a \<in> set xs. \<forall>b \<in> set xs. a = b \<or> separate a b"
    by blast+
  from x have lt: "span_start x < span_end x"
    by (simp add: span_in_def)
  have notin: "x \<notin> set xs"
  proof
    assume "x \<in> set xs"
    with after have "span_end x \<le> span_start x" by blast
    with lt show False by simp
  qed
  have "\<forall>y \<in> set (x # xs). lo \<le> span_start y \<and> span_in text y"
    using lo x after lt by fastforce
  moreover have "distinct (x # xs)"
    using notin dist by simp
  moreover have "\<forall>a \<in> set (x # xs). \<forall>b \<in> set (x # xs). a = b \<or> separate a b"
    using after pair by (auto simp: separate_def)
  ultimately show ?case by blast
qed

lemma sorted_chain:
  "sorted (map span_start ms) \<Longrightarrow> distinct ms \<Longrightarrow>
   \<forall>x \<in> set ms. lo \<le> span_start x \<and> span_in text x \<Longrightarrow>
   \<forall>x \<in> set ms. \<forall>y \<in> set ms. x = y \<or> separate x y \<Longrightarrow>
   chain text lo ms"
proof (induction ms arbitrary: lo)
  case Nil
  then show ?case by simp
next
  case (Cons x xs)
  have "span_end x \<le> span_start y \<and> span_in text y" if y: "y \<in> set xs" for y
  proof -
    from Cons.prems(2) y have "x \<noteq> y" by auto
    with Cons.prems(4) y have "separate x y" by auto
    moreover from Cons.prems(1) y have "span_start x \<le> span_start y" by auto
    moreover from Cons.prems(3) y have iny: "span_in text y" by auto
    then have "span_start y < span_end y" by (simp add: span_in_def)
    ultimately show ?thesis using iny by (auto simp: separate_def)
  qed
  then have "\<forall>y \<in> set xs. span_end x \<le> span_start y \<and> span_in text y"
    by blast
  moreover from Cons.prems have "sorted (map span_start xs)" "distinct xs"
    "\<forall>a \<in> set xs. \<forall>b \<in> set xs. a = b \<or> separate a b"
    by auto
  ultimately have "chain text (span_end x) xs"
    by (intro Cons.IH)
  with Cons.prems(3) show ?case by simp
qed

lemma slice_append:
  "a \<le> b \<Longrightarrow> b \<le> c \<Longrightarrow> slice t a b @ slice t b c = slice t a c"
proof -
  assume ab: "a \<le> b" and bc: "b \<le> c"
  have "take ((b - a) + (c - b)) (drop a t) =
        take (b - a) (drop a t) @ take (c - b) (drop (b - a) (drop a t))"
    by (rule take_add)
  moreover from ab bc have "(b - a) + (c - b) = c - a" by simp
  moreover from ab have "drop (b - a) (drop a t) = drop b t" by simp
  ultimately show ?thesis by (simp add: slice_def)
qed

lemma segment_loop_chain:
  "chain text lo ms \<Longrightarrow> lo \<le> length text \<Longrightarrow>
   segment_loop text ms (segs, lo) = (segs', lo') \<Longrightarrow>
   concat (map snd segs') = concat (map snd segs) @ slice text lo lo' \<and>
   lo \<le> lo' \<and> lo' \<le> length text"
proof (induction ms arbitrary: segs lo)
  case Nil
  then show ?case by (simp add: slice_def)
next
  case (Cons x xs)
  obtain k s e c where x: "x = (k, s, e, c)" by (cases x) auto
  from Cons.prems(1) x have lo: "lo \<le> s" and se: "s < e" and el: "e \<le> length text"
    and c: "c = slice text s e" and rest: "chain text e xs"
    by (simp_all add: span_in_def span_start_def span_end_def span_content_def)
  let ?segs = "(if s > lo then segs @ [(TextSeg, slice text lo s)] else segs) @ [(k, c)]"
  from Cons.prems(3) x have loop: "segment_loop text xs (?segs, e) = (segs', lo')"
    by simp
  have "slice text lo lo = []" by (simp add: slice_def)
  with lo have "concat (map snd ?segs) = concat (map snd segs) @ slice text lo s @ c"
    by (cases "s = lo") auto
  also from lo se c have "slice text lo s @ c = slice text lo e"
    by (simp add: slice_append)
  finally have now: "concat (map snd ?segs) = concat (map snd segs) @ slice text lo e" .
  from Cons.IH [OF rest el loop]
  have "concat (map snd segs') = concat (map snd ?segs) @ slice text e lo'"
    and "e \<le> lo'" and "lo' \<le> length text"
    by blast+
  with now lo se show ?case
    by (simp add: slice_append)
qed

lemma all_matches_chain:
  assumes "spans_disjoint text"
  shows "chain text 0 (all_matches text)"
proof -
  let ?R = "map (\<lambda>(s, e, c). (RefSeg, s, e, c)) (ref_matches text)"
  let ?M = "map (\<lambda>(s, e, c). (MathSeg, s, e, c)) (math_matches text)"
  have R: "chain text 0 ?R"
    unfolding ref_matches_def
    by (rule finditer_chain) (use match_ref_bounds in auto)
  have M: "chain text 0 ?M"
    unfolding math_matches_def
    by (rule finditer_chain) (use match_math_bounds in auto)
  note fR = chain_facts [OF R] and fM = chain_facts [OF M]
  have tagR: "fst x = RefSeg \<and> snd x \<in> set (ref_matches text)" if "x \<in> set ?R" for x
    using that by auto
  have tagM: "fst x = MathSeg \<and> snd x \<in> set (math_matches text)" if "x \<in> set ?M" for x
    using that by auto
  have cross: "separate x y" if x: "x \<in> set ?R" and y: "y \<in> set ?M" for x y
  proof -
    obtain k s e c where xe: "x = (k, s, e, c)" by (cases x) auto
    obtain k' s' e' c' where ye: "y = (k', s', e', c')" by (cases y) auto
    from tagR [OF x] xe have "(s, e, c) \<in> set (ref_matches text)" by simp
    moreover from tagM [OF y] ye have "(s', e', c') \<in> set (math_matches text)" by simp
    ultimately have "e \<le> s' \<or> e' \<le> s"
      using assms unfolding spans_disjoint_def by fastforce
    with xe ye show ?thesis
      by (simp add: separate_def span_start_def span_end_def)
  qed
  have sym: "separate y x" if "separate x y" for x y
    using that by (auto simp: separate_def)
  have disjoint_sets: "set ?R \<inter> set ?M = {}"
  proof (rule ccontr)
    assume "set ?R \<inter> set ?M \<noteq> {}"
    then obtain x where "x \<in> set ?R" "x \<in> set ?M" by blast
    with tagR tagM have "fst x = RefSeg" "fst x = MathSeg" by blast+
    then show False by simp
  qed
  have d: "distinct (?R @ ?M)"
    using fR fM disjoint_sets by simp
  have inall: "\<forall>x \<in> set (?R @ ?M). 0 \<le> span_start x \<and> span_in text x"
    using fR fM by auto
  have pair: "\<forall>x \<in> set (?R @ ?M). \<forall>y \<in> set (?R @ ?M). x = y \<or> separate x y"
  proof (intro ballI)
    fix x y assume "x \<in> set (?R @ ?M)" "y \<in> set (?R @ ?M)"
    then consider "x \<in> set ?R" "y \<in> set ?R" | "x \<in> set ?R" "y \<in> set ?M"
      | "x \<in> set ?M" "y \<in> set ?R" | "x \<in> set ?M" "y \<in> set ?M"
      by auto
    then show "x = y \<or> separate x y"
    proof cases
      case 1 with fR show ?thesis by blast
    next
      case 2 with cross show ?thesis by blast
    next
      case 3 with cross sym show ?thesis by blast
    next
      case 4 with fM show ?thesis by blast
    qed
  qed
  show ?thesis
    unfolding all_matches_def
    by (rule sorted_chain) (use d inall pair in \<open>simp_all add: sorted_sort_key\<close>)
qed


lemmas seg_defs = ref_matches_def math_matches_def match_ref_def match_math_def startswith_def
  u_def BSL_def NL_def DOLLAR_def RBRACE_def Let_def

text \<open>
  Claim C1: for every text in which the math spans and the reference spans are mutually
  disjoint, the segments that \<^verbatim>\<open>create_latex_text\<close> builds, concatenated in order,
  are the text again.
\<close>

theorem C1_segments_round_trip:
  assumes "spans_disjoint text"
  shows "concat (map snd (build_segments text)) = text"
proof -
  obtain segs last_end where loop: "segment_loop text (all_matches text) ([], 0) = (segs, last_end)"
    by (cases "segment_loop text (all_matches text) ([], 0)") auto
  from segment_loop_chain [OF all_matches_chain [OF assms] _ loop]
  have c: "concat (map snd segs) = slice text 0 last_end" and le: "last_end \<le> length text"
    by simp_all
  from c have c': "concat (map snd segs) = take last_end text"
    by (simp add: slice_def)
  show ?thesis
  proof (cases "last_end < length text")
    case True
    with loop c' show ?thesis by (simp add: build_segments_def)
  next
    case False
    with le have "last_end = length text" by simp
    with loop c' show ?thesis by (simp add: build_segments_def)
  qed
qed

lemma example_refs:
  "ref_matches (u ''The value $x^2$ satisfies '' @ BSL # u ''ref{eq:1}.'') =
     [(26, 36, BSL # u ''ref{eq:1}'')]"
  by (simp add: seg_defs)

lemma example_maths:
  "math_matches (u ''The value $x^2$ satisfies '' @ BSL # u ''ref{eq:1}.'') =
     [(10, 15, u ''$x^2$'')]"
  by (simp add: seg_defs)

lemma example_disjoint:
  "spans_disjoint (u ''The value $x^2$ satisfies '' @ BSL # u ''ref{eq:1}.'')"
  unfolding spans_disjoint_def example_refs example_maths by simp

lemma example_segments:
  "build_segments (u ''The value $x^2$ satisfies '' @ BSL # u ''ref{eq:1}.'') =
     [(TextSeg, u ''The value ''), (MathSeg, u ''$x^2$''), (TextSeg, u '' satisfies ''),
      (RefSeg, BSL # u ''ref{eq:1}''), (TextSeg, u ''.'')]"
  unfolding build_segments_def all_matches_def example_refs example_maths
  by (simp add: span_start_def slice_def u_def BSL_def)

text \<open>
  The example text of the specification has one math span and one reference span, apart
  from one another, and its segments give it back.
\<close>

theorem C1_segments_round_trip_witness:
  "spans_disjoint (u ''The value $x^2$ satisfies '' @ BSL # u ''ref{eq:1}.'') \<and>
   concat (map snd (build_segments (u ''The value $x^2$ satisfies '' @ BSL # u ''ref{eq:1}.''))) =
     u ''The value $x^2$ satisfies '' @ BSL # u ''ref{eq:1}.''"
  using C1_segments_round_trip [OF example_disjoint] example_disjoint by simp

lemma overlap_refs: "ref_matches (BSL # u ''ref{$x$}'') = [(0, 9, BSL # u ''ref{$x$}'')]"
  by (simp add: seg_defs)

lemma overlap_maths: "math_matches (BSL # u ''ref{$x$}'') = [(5, 8, u ''$x$'')]"
  by (simp add: seg_defs)

text \<open>
  Claim C5: matches are processed in the order of their start offsets, and a match that
  starts inside a span already consumed is dropped and contributes no segment.
  The loop has no such test. In \<^verbatim>\<open>\ref{$x$}\<close> the reference match covers the offsets 0 to 9
  and the math match \<^verbatim>\<open>$x$\<close> starts at 5, inside it; the math match is appended as a
  segment of its own all the same.
\<close>

theorem C5_overlap_counterexample:
  "all_matches (BSL # u ''ref{$x$}'') =
     [(RefSeg, 0, 9, BSL # u ''ref{$x$}''), (MathSeg, 5, 8, u ''$x$'')] \<and>
   build_segments (BSL # u ''ref{$x$}'') =
     [(RefSeg, BSL # u ''ref{$x$}''), (MathSeg, u ''$x$''), (TextSeg, u ''}'')]"
  unfolding build_segments_def all_matches_def overlap_refs overlap_maths
  by (simp add: span_start_def slice_def u_def BSL_def)

lemma segment_loop_protected:
  "\<forall>x \<in> set ms. fst x \<noteq> TextSeg \<Longrightarrow>
   filter (\<lambda>seg. fst seg \<noteq> TextSeg) (fst (segment_loop text ms (segs, lo))) =
     filter (\<lambda>seg. fst seg \<noteq> TextSeg) segs @ map (\<lambda>(k, s, e, c). (k, c)) ms"
proof (induction ms arbitrary: segs lo)
  case Nil
  then show ?case by simp
next
  case (Cons x xs)
  obtain k s e c where x: "x = (k, s, e, c)" by (cases x) auto
  from Cons.prems x have k: "k \<noteq> TextSeg" and rest: "\<forall>y \<in> set xs. fst y \<noteq> TextSeg"
    by auto
  show ?case
    using Cons.IH [OF rest] k by (simp add: x)
qed

lemma all_matches_protected: "\<forall>x \<in> set (all_matches text). fst x \<noteq> TextSeg"
  by (auto simp: all_matches_def)

text \<open>
  Claim C5, amended: the matches are processed in the order of their start offsets, and
  every match, also one that starts inside a span already consumed, contributes one
  protected segment that holds its text: the protected segments are the matches, in that
  order.
\<close>

theorem C5_every_match_is_a_segment:
  "filter (\<lambda>seg. fst seg \<noteq> TextSeg) (build_segments text) =
     map (\<lambda>(k, s, e, c). (k, c)) (all_matches text) \<and>
   sorted (map span_start (all_matches text))"
proof -
  obtain segs last_end where loop: "segment_loop text (all_matches text) ([], 0) = (segs, last_end)"
    by (cases "segment_loop text (all_matches text) ([], 0)") auto
  have "filter (\<lambda>seg. fst seg \<noteq> TextSeg) (fst (segment_loop text (all_matches text) ([], 0))) =
      filter (\<lambda>seg. fst seg \<noteq> TextSeg) [] @ map (\<lambda>(k, s, e, c). (k, c)) (all_matches text)"
    by (rule segment_loop_protected) (rule all_matches_protected)
  with loop
  have "filter (\<lambda>seg. fst seg \<noteq> TextSeg) segs = map (\<lambda>(k, s, e, c). (k, c)) (all_matches text)"
    by simp
  with loop have "filter (\<lambda>seg. fst seg \<noteq> TextSeg) (build_segments text) =
      map (\<lambda>(k, s, e, c). (k, c)) (all_matches text)"
    by (simp add: build_segments_def)
  moreover have "sorted (map span_start (all_matches text))"
    by (simp add: all_matches_def sorted_sort_key)
  ultimately show ?thesis by simp
qed

section \<open>Protected spans in the output\<close>

lemma blank_line_refs: "ref_matches (u ''$a'' @ [NL, NL] @ u ''b$'') = []"
  by (simp add: seg_defs)

lemma blank_line_maths:
  "math_matches (u ''$a'' @ [NL, NL] @ u ''b$'') = [(0, 6, u ''$a'' @ [NL, NL] @ u ''b$'')]"
  by (simp add: seg_defs)

text \<open>
  Claim C2: every protected span of the text appears verbatim in the output of
  \<^verbatim>\<open>create_latex_text\<close>. The segments are joined with the protected ones untouched, as
  the source's comments say, but step 5 then replaces every blank line of the joined
  text, also inside a protected span: the math span \<^verbatim>\<open>$a\n\nb$\<close> comes out as
  \<^verbatim>\<open>$a\n\par\nb$\<close>, and the output no longer contains it.
\<close>

theorem C2_blank_line_in_math_is_rewritten:
  "math_matches (u ''$a'' @ [NL, NL] @ u ''b$'') = [(0, 6, u ''$a'' @ [NL, NL] @ u ''b$'')] \<and>
   create_latex_text (u ''$a'' @ [NL, NL] @ u ''b$'') =
     u ''$a'' @ [NL] @ BSL # u ''par'' @ [NL] @ u ''b$'' \<and>
   \<not> contains (create_latex_text (u ''$a'' @ [NL, NL] @ u ''b$'')) (u ''$a'' @ [NL, NL] @ u ''b$'')"
proof -
  have out: "create_latex_text (u ''$a'' @ [NL, NL] @ u ''b$'') =
      u ''$a'' @ [NL] @ BSL # u ''par'' @ [NL] @ u ''b$''"
    unfolding create_latex_text_def joined_segments_def build_segments_def all_matches_def
      blank_line_refs blank_line_maths
    by (simp add: span_start_def slice_def u_def BSL_def NL_def startswith_def)
  show ?thesis
    unfolding out blank_line_maths by (simp add: u_def BSL_def NL_def startswith_def)
qed

text \<open>
  The example of the claim holds: in \<^verbatim>\<open>The value $x^2$ satisfies \ref{eq:1}.\<close> nothing is
  escaped and no blank line stands, and the output is the input.
\<close>

lemma plain_words: "plain s \<Longrightarrow> process_plain_text s = s"
proof -
  assume "plain s"
  then have a: "list_all (\<lambda>c. c < 128 \<and> c \<notin> set (u ''&%#_{}~^$[*'') \<and> c \<noteq> BSL \<and> \<not> isdecimal c) s"
    by (simp add: plain_def)
  have heads: "\<forall>p \<in> set replacements. fst p \<noteq> [] \<and> hd (fst p) \<notin> set s"
    using a by (auto simp: replacements_def list_all_iff u_def)
  have t: "replace_all replacements s = s"
    by (rule replace_all_noop [OF heads])
  have nodigit: "match_percent t = None" if "set t \<subseteq> set s" "t \<noteq> []" for t
  proof -
    from that obtain c cs where "t = c # cs" by (cases t) auto
    with that a have "\<not> isdecimal c" by (auto simp: list_all_iff)
    with \<open>t = c # cs\<close> show ?thesis by (simp add: match_percent_def)
  qed
  have r: "re_sub match_percent s = s"
    by (rule re_sub_noop) (use nodigit in auto)
  show ?thesis
    by (rule process_plain_text_eval [OF t _ r]) (use a in \<open>auto simp: list_all_iff u_def\<close>)
qed

lemma example_output:
  "create_latex_text (u ''The value $x^2$ satisfies '' @ BSL # u ''ref{eq:1}.'') =
     u ''The value $x^2$ satisfies '' @ BSL # u ''ref{eq:1}.''"
proof -
  have "process_plain_text (u ''The value '') = u ''The value ''"
    and "process_plain_text (u '' satisfies '') = u '' satisfies ''"
    and "process_plain_text (u ''.'') = u ''.''"
    by (rule plain_words, simp add: plain_def u_def BSL_def isdecimal_def decimal_ranges_def)+
  then show ?thesis
    unfolding create_latex_text_def joined_segments_def example_segments
    by (simp add: u_def BSL_def NL_def startswith_def)
qed


section \<open>Text blocks\<close>

text \<open>
  The two loops of the list pass compute what the specification describes: the outer loop,
  started at index \<open>i\<close>, appends the list regions of the lines from \<open>i\<close> on.
\<close>

lemma item_loop_eq:
  "i \<le> length lines \<Longrightarrow>
   item_loop lines i acc =
     (i + length (takeWhile is_item (drop i lines)),
      acc @ map item_line (takeWhile is_item (drop i lines)))"
proof (induction lines i acc rule: item_loop.induct)
  case (1 lines i final_result)
  show ?case
  proof (cases "i < length lines \<and> is_item (lines ! i)")
    case True
    then have d: "drop i lines = lines ! i # drop (i + 1) lines"
      by (simp add: Cons_nth_drop_Suc)
    from True have "i + 1 \<le> length lines" by simp
    from "1.IH" [OF True this] True d show ?thesis
      by (simp add: item_loop.simps [of lines i final_result])
  next
    case False
    show ?thesis
    proof (cases "i < length lines")
      case True
      with False have "\<not> is_item (lines ! i)" by simp
      moreover from True have "drop i lines = lines ! i # drop (i + 1) lines"
        by (simp add: Cons_nth_drop_Suc)
      ultimately show ?thesis
        using False by (simp add: item_loop.simps [of lines i final_result])
    next
      case False
      with "1.prems" have "drop i lines = []" by simp
      with False show ?thesis
        by (simp add: item_loop.simps [of lines i final_result])
    qed
  qed
qed

lemma list_loop_eq:
  "i \<le> length lines \<Longrightarrow> list_loop lines i acc = acc @ itemize_regions (drop i lines)"
proof (induction lines i acc rule: list_loop.induct)
  case (1 lines i final_result)
  show ?case
  proof (cases "i < length lines")
    case False
    with "1.prems" have "drop i lines = []" by simp
    with False show ?thesis
      by (simp add: list_loop.simps [of lines i final_result])
  next
    case True
    then have d: "drop i lines = lines ! i # drop (i + 1) lines"
      by (simp add: Cons_nth_drop_Suc)
    show ?thesis
    proof (cases "is_item (lines ! i)")
      case False
      from True have "i + 1 \<le> length lines" by simp
      from "1.IH"(2) [OF True False this] True False d show ?thesis
        by (simp add: list_loop.simps [of lines i final_result])
    next
      case item: True
      let ?items = "takeWhile is_item (drop i lines)"
      let ?i' = "i + length ?items"
      let ?r' = "(final_result @ [begin_itemize]) @ map item_line ?items"
      from "1.prems" have loop: "item_loop lines i (final_result @ [begin_itemize]) = (?i', ?r')"
        by (rule item_loop_eq)
      have "length ?items \<le> length (drop i lines)"
        by (rule length_takeWhile_le)
      with "1.prems" have le: "?i' \<le> length lines" by simp
      have IH: "list_loop lines ?i' (?r' @ [end_itemize]) =
          (?r' @ [end_itemize]) @ itemize_regions (drop ?i' lines)"
        by (rule "1.IH"(1) [OF True item loop [symmetric] le])
      have "drop ?i' lines = drop (length ?items) (drop i lines)"
        by (simp add: add.commute)
      also have "\<dots> = dropWhile is_item (drop i lines)"
        by (simp add: dropWhile_eq_drop)
      also from item d have "\<dots> = dropWhile is_item (drop (i + 1) lines)"
        by simp
      finally have rest: "drop ?i' lines = dropWhile is_item (drop (i + 1) lines)" .
      from item d have items: "?items = lines ! i # takeWhile is_item (drop (i + 1) lines)"
        by simp
      have "list_loop lines i final_result = list_loop lines ?i' (?r' @ [end_itemize])"
        using True item loop by (simp add: list_loop.simps [of lines i final_result])
      with IH rest items d item show ?thesis
        by simp
    qed
  qed
qed

text \<open>A plain text has no protected span, and formatting leaves it as it is.\<close>

lemma finditer_none:
  "(\<And>t. t \<noteq> [] \<Longrightarrow> set t \<subseteq> set s \<Longrightarrow> m t = None) \<Longrightarrow> finditer m pos s = []"
proof (induction s arbitrary: pos)
  case Nil
  then show ?case by simp
next
  case (Cons c cs)
  have "m (c # cs) = None" by (rule Cons.prems) auto
  moreover have "finditer m (pos + 1) cs = []"
    by (rule Cons.IH, rule Cons.prems) auto
  ultimately show ?case by simp
qed

lemma match_ref_None: "BSL \<notin> set t \<Longrightarrow> match_ref t = None"
  by (cases t) (auto simp: match_ref_def startswith_def)

lemma match_math_None: "DOLLAR \<notin> set t \<Longrightarrow> match_math t = None"
  by (cases t) (auto simp: match_math_def)

lemma plain_no_matches:
  assumes "plain s"
  shows "all_matches s = []"
proof -
  from assms have b: "BSL \<notin> set s" and d: "DOLLAR \<notin> set s"
    by (auto simp: plain_def list_all_iff u_def DOLLAR_def)
  have "ref_matches s = []"
    unfolding ref_matches_def by (rule finditer_none, rule match_ref_None) (use b in auto)
  moreover have "math_matches s = []"
    unfolding math_matches_def by (rule finditer_none, rule match_math_None) (use d in auto)
  ultimately show ?thesis by (simp add: all_matches_def)
qed

lemma create_latex_text_plain:
  assumes "plain s"
  shows "create_latex_text s = replace [NL, NL] (NL # BSL # u ''par'' @ [NL]) s"
proof -
  have "build_segments s = (if s = [] then [] else [(TextSeg, s)])"
    by (simp add: build_segments_def plain_no_matches [OF assms])
  then have "joined_segments s = s"
    by (simp add: joined_segments_def plain_words [OF assms])
  then show ?thesis by (simp add: create_latex_text_def)
qed

lemma create_latex_text_plain_line:
  "plain s \<Longrightarrow> NL \<notin> set s \<Longrightarrow> create_latex_text s = s"
  by (simp add: create_latex_text_plain replace_noop)

lemma heading_level_takeWhile: "heading_level text = length (takeWhile (\<lambda>c. c = HASH) text)"
  by (induction "text") simp_all

lemma heading_level_drop: "drop (heading_level text) text = dropWhile (\<lambda>c. c = HASH) text"
  by (induction "text") simp_all

lemma heading_level_pos: "startswith text [HASH] \<Longrightarrow> 1 \<le> heading_level text"
  by (cases "text") (auto simp: startswith_def)

lemma inline_heading:
  "block_type b = u ''text'' \<Longrightarrow> d_text (block_data b) = Some text \<Longrightarrow> startswith text [HASH] \<Longrightarrow>
   process_content_block env b page_dir =
     (heading (heading_level text) (create_latex_text (strip (drop (heading_level text) text)))
        @ [NL, NL], [])"
  by (simp add: process_content_block_def process_text_block_def Let_def)

lemma inline_body:
  "block_type b = u ''text'' \<Longrightarrow> d_text (block_data b) = Some text \<Longrightarrow> \<not> startswith text [HASH] \<Longrightarrow>
   process_content_block env b page_dir = (create_latex_text text @ [NL, NL], [])"
  by (simp add: process_content_block_def process_text_block_def Let_def)

lemma external_text:
  "block_type b = u ''text'' \<Longrightarrow> d_text (block_data b) = None \<Longrightarrow> d_textPath (block_data b) = Some p \<Longrightarrow>
   process_content_block env b page_dir =
     (convert_lists (create_latex_text
        (join_nl (map process_line (split_nl (load_external_text env p page_dir))))), [])"
  by (simp add: process_content_block_def process_text_block_def Let_def)

lemmas block_defs = inline_text_block_def external_text_block_def empty_data_def file_env_def
lemmas char_defs = u_def BSL_def NL_def HASH_def startswith_def
lemmas class_defs = isspace_def space_ranges_def isdecimal_def decimal_ranges_def

text \<open>The lines \<^verbatim>\<open>- a\<close>, \<^verbatim>\<open>- b\<close>, \<^verbatim>\<open>not a list\<close> of the specification's example.\<close>

lemma list_text_plain: "plain (u ''- a'' @ [NL] @ u ''- b'' @ [NL] @ u ''not a list'')"
  by (simp add: plain_def char_defs class_defs)

lemma list_text_latex:
  "create_latex_text (u ''- a'' @ [NL] @ u ''- b'' @ [NL] @ u ''not a list'') =
     u ''- a'' @ [NL] @ u ''- b'' @ [NL] @ u ''not a list''"
  unfolding create_latex_text_plain [OF list_text_plain] by (simp add: char_defs)

lemma list_text_lines:
  "split_nl (u ''- a'' @ [NL] @ u ''- b'' @ [NL] @ u ''not a list'') =
     [u ''- a'', u ''- b'', u ''not a list'']"
  by (simp add: char_defs)

lemma list_items:
  "is_item (u ''- a'')" "is_item (u ''- b'')" "\<not> is_item (u ''not a list'')"
  "item_line (u ''- a'') = BSL # u ''item a''" "item_line (u ''- b'') = BSL # u ''item b''"
  by (simp_all add: is_item_def item_line_def strip_def char_defs class_defs)

lemma list_lines_unchanged:
  "map process_line [u ''- a'', u ''- b'', u ''not a list''] = [u ''- a'', u ''- b'', u ''not a list'']"
  by (simp add: process_line_def strip_def char_defs class_defs)

lemma itemize_regions_subseq:
  assumes a: "is_item a" and b: "is_item b" and n: "\<not> is_item n"
  shows "subseq [begin_itemize, item_line a, item_line b, end_itemize, n]
           (itemize_regions (pre @ [a, b, n] @ post))"
proof (induction pre rule: length_induct)
  case (1 pre)
  show ?case
  proof (cases pre)
    case Nil
    with a b n show ?thesis by simp
  next
    case (Cons l ls)
    show ?thesis
    proof (cases "is_item l")
      case False
      have "length ls < length pre" using Cons by simp
      with 1 have "subseq [begin_itemize, item_line a, item_line b, end_itemize, n]
           (itemize_regions (ls @ [a, b, n] @ post))" by blast
      with False Cons show ?thesis by (simp add: subseq_Cons')
    next
      case True
      show ?thesis
      proof (cases "\<forall>x \<in> set ls. is_item x")
        case all: True
        then have t: "takeWhile is_item (ls @ [a, b, n] @ post) = ls @ [a, b]"
          using a b n by (simp add: takeWhile_append2)
        from all have d: "dropWhile is_item (ls @ [a, b, n] @ post) = n # post"
          using a b n by (simp add: dropWhile_append2)
        have "subseq [begin_itemize, item_line a, item_line b, end_itemize, n]
            (begin_itemize # (item_line l # map item_line ls) @
               [item_line a, item_line b, end_itemize, n] @ itemize_regions post)"
          by (intro subseq_Cons2 list_emb_prefix list_emb_append2) simp
        with True Cons t d n show ?thesis by simp
      next
        case some: False
        then obtain x where x: "x \<in> set ls" "\<not> is_item x"
          by blast
        then have t: "takeWhile is_item (ls @ [a, b, n] @ post) = takeWhile is_item ls"
          by (rule takeWhile_append1)
        from x have d: "dropWhile is_item (ls @ [a, b, n] @ post) = dropWhile is_item ls @ [a, b, n] @ post"
          by (rule dropWhile_append1)
        have "length (dropWhile is_item ls) < length pre"
          using Cons by (simp add: length_dropWhile_le less_Suc_eq_le)
        with 1 have "subseq [begin_itemize, item_line a, item_line b, end_itemize, n]
            (itemize_regions (dropWhile is_item ls @ [a, b, n] @ post))" by blast
        then have "subseq [begin_itemize, item_line a, item_line b, end_itemize, n]
            ((begin_itemize # map item_line (l # takeWhile is_item ls) @ [end_itemize]) @
               itemize_regions (dropWhile is_item ls @ [a, b, n] @ post))"
          by (rule list_emb_append2)
        with True Cons t d show ?thesis by simp
      qed
    qed
  qed
qed


lemma title_plain: "plain (u ''Title'')"
  by (simp add: plain_def char_defs class_defs)

lemma title_latex: "create_latex_text (u ''Title'') = u ''Title''"
  by (rule create_latex_text_plain_line [OF title_plain]) (simp add: char_defs)

section \<open>Inline headings\<close>

text \<open>
  Claim C6: a text block whose inline text starts with \<open>k\<close> characters \<^verbatim>\<open>#\<close> is rendered as
  the heading command of level \<open>k\<close> around the formatted remainder, followed by a blank
  line: chapter, section, subsection and subsubsection for the levels 1 to 4, paragraph from
  level 5 on. In particular \<^verbatim>\<open># Title\<close> gives \<^verbatim>\<open>\chapter{Title}\<close> and \<^verbatim>\<open>## Title\<close> gives
  \<^verbatim>\<open>\section{Title}\<close>, each followed by two newlines.
\<close>

theorem C6_inline_heading:
  "(block_type b = u ''text'' \<and> d_text (block_data b) = Some t \<and> startswith t [HASH] \<longrightarrow>
      process_content_block env b page_dir =
        (BSL # heading_command (heading_level t) @ u ''{''
           @ create_latex_text (strip (drop (heading_level t) t)) @ u ''}'' @ [NL, NL], [])
      \<and> heading_level t = length (takeWhile (\<lambda>c. c = HASH) t) \<and> 1 \<le> heading_level t)
   \<and> heading_command 1 = u ''chapter'' \<and> heading_command 2 = u ''section''
   \<and> heading_command 3 = u ''subsection'' \<and> heading_command 4 = u ''subsubsection''
   \<and> (\<forall>k. 5 \<le> k \<longrightarrow> heading_command k = u ''paragraph'')
   \<and> process_content_block env (inline_text_block (u ''# Title'')) page_dir =
        (BSL # u ''chapter{Title}'' @ [NL, NL], [])
   \<and> process_content_block env (inline_text_block (u ''## Title'')) page_dir =
        (BSL # u ''section{Title}'' @ [NL, NL], [])"
proof -
  have general: "process_content_block env b page_dir =
        (BSL # heading_command (heading_level t) @ u ''{''
           @ create_latex_text (strip (drop (heading_level t) t)) @ u ''}'' @ [NL, NL], [])
      \<and> heading_level t = length (takeWhile (\<lambda>c. c = HASH) t) \<and> 1 \<le> heading_level t"
    if "block_type b = u ''text''" "d_text (block_data b) = Some t" "startswith t [HASH]"
    using inline_heading [OF that] heading_level_takeWhile [of t] heading_level_pos [OF that(3)]
    by (simp add: heading_def)
  have commands: "heading_command 1 = u ''chapter'' \<and> heading_command 2 = u ''section''
      \<and> heading_command 3 = u ''subsection'' \<and> heading_command 4 = u ''subsubsection''
      \<and> (\<forall>k. 5 \<le> k \<longrightarrow> heading_command k = u ''paragraph'')"
    by (simp add: heading_command_def)
  have l1: "heading_level (u ''# Title'') = 1" and l2: "heading_level (u ''## Title'') = 2"
    by (simp_all add: char_defs)
  have s1: "strip (drop 1 (u ''# Title'')) = u ''Title''"
    and s2: "strip (drop 2 (u ''## Title'')) = u ''Title''"
    by (simp_all add: strip_def char_defs class_defs)
  have "process_content_block env (inline_text_block (u ''# Title'')) page_dir =
     (heading (heading_level (u ''# Title''))
        (create_latex_text (strip (drop (heading_level (u ''# Title'')) (u ''# Title'')))) @ [NL, NL], [])"
    by (rule inline_heading) (simp_all add: block_defs char_defs)
  then have e1: "process_content_block env (inline_text_block (u ''# Title'')) page_dir =
        (BSL # u ''chapter{Title}'' @ [NL, NL], [])"
    unfolding l1 s1 title_latex by (simp add: heading_def heading_command_def char_defs)
  have "process_content_block env (inline_text_block (u ''## Title'')) page_dir =
     (heading (heading_level (u ''## Title''))
        (create_latex_text (strip (drop (heading_level (u ''## Title'')) (u ''## Title'')))) @ [NL, NL], [])"
    by (rule inline_heading) (simp_all add: block_defs char_defs)
  then have e2: "process_content_block env (inline_text_block (u ''## Title'')) page_dir =
        (BSL # u ''section{Title}'' @ [NL, NL], [])"
    unfolding l2 s2 title_latex by (simp add: heading_def heading_command_def char_defs)
  from general commands e1 e2 show ?thesis by blast
qed

text \<open>The block with the inline text \<^verbatim>\<open>### Title\<close> is a heading of level 3.\<close>

theorem C6_inline_heading_witness:
  "block_type (inline_text_block (u ''### Title'')) = u ''text'' \<and>
   d_text (block_data (inline_text_block (u ''### Title''))) = Some (u ''### Title'') \<and>
   startswith (u ''### Title'') [HASH] \<and>
   heading_level (u ''### Title'') = 3 \<and>
   process_content_block (file_env []) (inline_text_block (u ''### Title'')) [] =
     (BSL # u ''subsection{Title}'' @ [NL, NL], []) \<and>
   heading_command 7 = u ''paragraph''"
proof -
  have s: "strip (drop 3 (u ''### Title'')) = u ''Title''"
    by (simp add: strip_def char_defs class_defs)
  have l: "length (takeWhile (\<lambda>c. c = HASH) (u ''### Title'')) = 3"
    by (simp add: char_defs)
  have h: "block_type (inline_text_block (u ''### Title'')) = u ''text'' \<and>
      d_text (block_data (inline_text_block (u ''### Title''))) = Some (u ''### Title'') \<and>
      startswith (u ''### Title'') [HASH]"
    by (simp add: block_defs char_defs)
  note inst = C6_inline_heading
    [of "inline_text_block (u ''### Title'')" "u ''### Title''" "file_env []" "[]"]
  from inst have "block_type (inline_text_block (u ''### Title'')) = u ''text'' \<and>
      d_text (block_data (inline_text_block (u ''### Title''))) = Some (u ''### Title'') \<and>
      startswith (u ''### Title'') [HASH] \<longrightarrow>
      process_content_block (file_env []) (inline_text_block (u ''### Title'')) [] =
        (BSL # heading_command (heading_level (u ''### Title'')) @ u ''{''
           @ create_latex_text (strip (drop (heading_level (u ''### Title'')) (u ''### Title'')))
           @ u ''}'' @ [NL, NL], []) \<and>
      heading_level (u ''### Title'') = length (takeWhile (\<lambda>c. c = HASH) (u ''### Title'')) \<and>
      1 \<le> heading_level (u ''### Title'')"
    by (rule conjunct1)
  from this h
  have "process_content_block (file_env []) (inline_text_block (u ''### Title'')) [] =
        (BSL # heading_command (heading_level (u ''### Title'')) @ u ''{''
           @ create_latex_text (strip (drop (heading_level (u ''### Title'')) (u ''### Title'')))
           @ u ''}'' @ [NL, NL], []) \<and>
      heading_level (u ''### Title'') = length (takeWhile (\<lambda>c. c = HASH) (u ''### Title'')) \<and>
      1 \<le> heading_level (u ''### Title'')"
    by (rule mp)
  then have out: "process_content_block (file_env []) (inline_text_block (u ''### Title'')) [] =
        (BSL # heading_command (heading_level (u ''### Title'')) @ u ''{''
           @ create_latex_text (strip (drop (heading_level (u ''### Title'')) (u ''### Title'')))
           @ u ''}'' @ [NL, NL], [])"
    and level: "heading_level (u ''### Title'') = length (takeWhile (\<lambda>c. c = HASH) (u ''### Title''))"
    by (rule conjunct1, elim conjE)
  from inst have c3: "heading_command 3 = u ''subsection''"
    by (elim conjE)
  from inst have "\<forall>k. 5 \<le> k \<longrightarrow> heading_command k = u ''paragraph''"
    by (elim conjE)
  then have "5 \<le> (7::nat) \<longrightarrow> heading_command 7 = u ''paragraph''"
    by (rule spec)
  then have c7: "heading_command 7 = u ''paragraph''"
    by simp
  from level l have l3: "heading_level (u ''### Title'') = 3"
    by (simp only:)
  from out have "process_content_block (file_env []) (inline_text_block (u ''### Title'')) [] =
     (BSL # u ''subsection{Title}'' @ [NL, NL], [])"
    unfolding l3 s title_latex c3 by (simp add: u_def)
  with h l3 c7 show ?thesis
    by (intro conjI) (elim conjE, assumption)+
qed

lemma two_lines_plain: "plain (u ''T'' @ [NL] @ u ''body'')"
  by (simp add: plain_def char_defs class_defs)

lemma two_lines_latex: "create_latex_text (u ''T'' @ [NL] @ u ''body'') = u ''T'' @ [NL] @ u ''body''"
  unfolding create_latex_text_plain [OF two_lines_plain] by (simp add: char_defs)

text \<open>
  Claim C10: when the inline text starts with \<^verbatim>\<open>#\<close>, the whole remainder after the leading
  \<^verbatim>\<open>#\<close> characters, with all its further lines, is the argument of the one heading
  command that is returned; nothing of it is rendered outside that command.
\<close>

theorem C10_heading_takes_all_lines:
  "(block_type b = u ''text'' \<and> d_text (block_data b) = Some t \<and> startswith t [HASH] \<longrightarrow>
      (\<exists>command \<in> set [u ''chapter'', u ''section'', u ''subsection'', u ''subsubsection'',
                          u ''paragraph''].
         process_content_block env b page_dir =
           (BSL # command @ u ''{'' @ create_latex_text (strip (dropWhile (\<lambda>c. c = HASH) t))
              @ u ''}'' @ [NL, NL], [])))
   \<and> process_content_block env (inline_text_block (u ''# T'' @ [NL] @ u ''body'')) page_dir =
        (BSL # u ''chapter{T'' @ [NL] @ u ''body}'' @ [NL, NL], [])"
proof -
  have cmd: "heading_command k \<in> set [u ''chapter'', u ''section'', u ''subsection'',
      u ''subsubsection'', u ''paragraph'']" for k
    by (simp add: heading_command_def)
  have general: "\<exists>command \<in> set [u ''chapter'', u ''section'', u ''subsection'', u ''subsubsection'',
                          u ''paragraph''].
         process_content_block env b page_dir =
           (BSL # command @ u ''{'' @ create_latex_text (strip (dropWhile (\<lambda>c. c = HASH) t))
              @ u ''}'' @ [NL, NL], [])"
    if "block_type b = u ''text''" "d_text (block_data b) = Some t" "startswith t [HASH]"
  proof (rule bexI [OF _ cmd [of "heading_level t"]])
    show "process_content_block env b page_dir =
           (BSL # heading_command (heading_level t) @ u ''{''
              @ create_latex_text (strip (dropWhile (\<lambda>c. c = HASH) t)) @ u ''}'' @ [NL, NL], [])"
      using inline_heading [OF that] by (simp add: heading_def heading_level_drop)
  qed
  have l: "heading_level (u ''# T'' @ [NL] @ u ''body'') = 1"
    by (simp add: char_defs)
  have s: "strip (drop 1 (u ''# T'' @ [NL] @ u ''body'')) = u ''T'' @ [NL] @ u ''body''"
    by (simp add: strip_def char_defs class_defs)
  have "process_content_block env (inline_text_block (u ''# T'' @ [NL] @ u ''body'')) page_dir =
     (heading (heading_level (u ''# T'' @ [NL] @ u ''body''))
        (create_latex_text (strip (drop (heading_level (u ''# T'' @ [NL] @ u ''body''))
           (u ''# T'' @ [NL] @ u ''body'')))) @ [NL, NL], [])"
    by (rule inline_heading) (simp_all add: block_defs char_defs)
  then have e: "process_content_block env (inline_text_block (u ''# T'' @ [NL] @ u ''body'')) page_dir =
        (BSL # u ''chapter{T'' @ [NL] @ u ''body}'' @ [NL, NL], [])"
    unfolding l s two_lines_latex by (simp add: heading_def heading_command_def char_defs)
  from general e show ?thesis by blast
qed

text \<open>The block with the two-line inline text \<^verbatim>\<open># T\nbody\<close> meets the conditions.\<close>

theorem C10_heading_takes_all_lines_witness:
  "block_type (inline_text_block (u ''# T'' @ [NL] @ u ''body'')) = u ''text'' \<and>
   d_text (block_data (inline_text_block (u ''# T'' @ [NL] @ u ''body''))) =
     Some (u ''# T'' @ [NL] @ u ''body'') \<and>
   startswith (u ''# T'' @ [NL] @ u ''body'') [HASH] \<and>
   (\<exists>command \<in> set [u ''chapter'', u ''section'', u ''subsection'', u ''subsubsection'',
                       u ''paragraph''].
      process_content_block (file_env []) (inline_text_block (u ''# T'' @ [NL] @ u ''body'')) [] =
        (BSL # command @ u ''{''
           @ create_latex_text (strip (dropWhile (\<lambda>c. c = HASH) (u ''# T'' @ [NL] @ u ''body'')))
           @ u ''}'' @ [NL, NL], []))"
proof -
  have h: "block_type (inline_text_block (u ''# T'' @ [NL] @ u ''body'')) = u ''text'' \<and>
      d_text (block_data (inline_text_block (u ''# T'' @ [NL] @ u ''body''))) =
        Some (u ''# T'' @ [NL] @ u ''body'') \<and>
      startswith (u ''# T'' @ [NL] @ u ''body'') [HASH]"
    by (simp add: block_defs char_defs)
  note inst = C10_heading_takes_all_lines
    [of "inline_text_block (u ''# T'' @ [NL] @ u ''body'')" "u ''# T'' @ [NL] @ u ''body''"
        "file_env []" "[]"]
  from inst have "block_type (inline_text_block (u ''# T'' @ [NL] @ u ''body'')) = u ''text'' \<and>
      d_text (block_data (inline_text_block (u ''# T'' @ [NL] @ u ''body''))) =
        Some (u ''# T'' @ [NL] @ u ''body'') \<and>
      startswith (u ''# T'' @ [NL] @ u ''body'') [HASH] \<longrightarrow>
      (\<exists>command \<in> set [u ''chapter'', u ''section'', u ''subsection'', u ''subsubsection'',
                          u ''paragraph''].
         process_content_block (file_env []) (inline_text_block (u ''# T'' @ [NL] @ u ''body'')) [] =
           (BSL # command @ u ''{''
              @ create_latex_text (strip (dropWhile (\<lambda>c. c = HASH) (u ''# T'' @ [NL] @ u ''body'')))
              @ u ''}'' @ [NL, NL], []))"
    by (rule conjunct1)
  from this h
  have "\<exists>command \<in> set [u ''chapter'', u ''section'', u ''subsection'', u ''subsubsection'',
                          u ''paragraph''].
         process_content_block (file_env []) (inline_text_block (u ''# T'' @ [NL] @ u ''body'')) [] =
           (BSL # command @ u ''{''
              @ create_latex_text (strip (dropWhile (\<lambda>c. c = HASH) (u ''# T'' @ [NL] @ u ''body'')))
              @ u ''}'' @ [NL, NL], [])"
    by (rule mp)
  with h show ?thesis
    by (intro conjI) (elim conjE, assumption)+
qed

section \<open>Lists\<close>

text \<open>
  Claim C7: on the \<^verbatim>\<open>textPath\<close> path, when the processed text contains the consecutive
  lines \<^verbatim>\<open>- a\<close>, \<^verbatim>\<open>- b\<close>, \<^verbatim>\<open>not a list\<close>, the fragment contains \<^verbatim>\<open>\begin{itemize}\<close>,
  \<^verbatim>\<open>\item a\<close>, \<^verbatim>\<open>\item b\<close>, \<^verbatim>\<open>\end{itemize}\<close>, \<^verbatim>\<open>not a list\<close> in that order. A list
  region is opened by a line whose trimmed content starts with \<^verbatim>\<open>- \<close> and closed by the
  first line that is no item or by the end of the input, and it holds item lines only,
  never another list region.
\<close>

theorem C7_list_regions:
  "list_loop lines 0 [] = itemize_regions lines
   \<and> (is_item a \<and> is_item b \<and> \<not> is_item n \<longrightarrow>
        subseq [begin_itemize, item_line a, item_line b, end_itemize, n]
          (list_loop (pre @ [a, b, n] @ post) 0 []))
   \<and> item_line l \<noteq> begin_itemize \<and> item_line l \<noteq> end_itemize
   \<and> (block_type blk = u ''text'' \<and> d_text (block_data blk) = None \<and>
      d_textPath (block_data blk) = Some p \<longrightarrow>
        fst (process_content_block env blk page_dir) =
          join_nl (list_loop (split_nl (create_latex_text (join_nl (map process_line
            (split_nl (load_external_text env p page_dir)))))) 0 []))
   \<and> process_content_block (file_env (u ''- a'' @ [NL] @ u ''- b'' @ [NL] @ u ''not a list''))
        (external_text_block p) page_dir =
        (BSL # u ''begin{itemize}'' @ [NL] @ BSL # u ''item a'' @ [NL] @ BSL # u ''item b'' @ [NL]
           @ BSL # u ''end{itemize}'' @ [NL] @ u ''not a list'', [])"
proof -
  have eq: "list_loop ls 0 [] = itemize_regions ls" for ls
    using list_loop_eq [of 0 ls "[]"] by simp
  have sub: "subseq [begin_itemize, item_line a, item_line b, end_itemize, n]
          (list_loop (pre @ [a, b, n] @ post) 0 [])"
    if "is_item a" "is_item b" "\<not> is_item n"
    unfolding eq by (rule itemize_regions_subseq [OF that])
  have items: "item_line l \<noteq> begin_itemize \<and> item_line l \<noteq> end_itemize"
    by (simp add: item_line_def begin_itemize_def end_itemize_def u_def)
  have path: "fst (process_content_block env blk page_dir) =
          join_nl (list_loop (split_nl (create_latex_text (join_nl (map process_line
            (split_nl (load_external_text env p page_dir)))))) 0 [])"
    if "block_type blk = u ''text''" "d_text (block_data blk) = None"
      "d_textPath (block_data blk) = Some p"
    using external_text [OF that] by (simp add: convert_lists_def)
  let ?T = "u ''- a'' @ [NL] @ u ''- b'' @ [NL] @ u ''not a list''"
  have j: "join_nl [u ''- a'', u ''- b'', u ''not a list''] = ?T"
    by simp
  have "process_content_block (file_env ?T) (external_text_block p) page_dir =
      (convert_lists (create_latex_text (join_nl (map process_line
         (split_nl (load_external_text (file_env ?T) p page_dir))))), [])"
    by (rule external_text) (simp_all add: block_defs)
  also have "load_external_text (file_env ?T) p page_dir = ?T"
    by (simp add: file_env_def)
  finally have example: "process_content_block (file_env ?T) (external_text_block p) page_dir =
        (BSL # u ''begin{itemize}'' @ [NL] @ BSL # u ''item a'' @ [NL] @ BSL # u ''item b'' @ [NL]
           @ BSL # u ''end{itemize}'' @ [NL] @ u ''not a list'', [])"
    unfolding list_text_lines list_lines_unchanged j list_text_latex convert_lists_def
    by (simp add: list_loop_eq list_items begin_itemize_def end_itemize_def)
  from eq [of lines] sub items path example show ?thesis by blast
qed

text \<open>
  The three lines of the example between two other lines, and a \<^verbatim>\<open>textPath\<close> block whose
  file holds them.
\<close>

theorem C7_list_regions_witness:
  "is_item (u ''- a'') \<and> is_item (u ''- b'') \<and> \<not> is_item (u ''not a list'') \<and>
   subseq [begin_itemize, item_line (u ''- a''), item_line (u ''- b''), end_itemize, u ''not a list'']
     (list_loop ([u ''first''] @ [u ''- a'', u ''- b'', u ''not a list''] @ [u ''last'']) 0 []) \<and>
   block_type (external_text_block (u ''list.md'')) = u ''text'' \<and>
   d_text (block_data (external_text_block (u ''list.md''))) = None \<and>
   d_textPath (block_data (external_text_block (u ''list.md''))) = Some (u ''list.md'') \<and>
   fst (process_content_block (file_env (u ''- a'' @ [NL] @ u ''- b'' @ [NL] @ u ''not a list''))
          (external_text_block (u ''list.md'')) []) =
     join_nl (list_loop (split_nl (create_latex_text (join_nl (map process_line
       (split_nl (load_external_text
          (file_env (u ''- a'' @ [NL] @ u ''- b'' @ [NL] @ u ''not a list''))
          (u ''list.md'') [])))))) 0 [])"
proof -
  have h1: "is_item (u ''- a'') \<and> is_item (u ''- b'') \<and> \<not> is_item (u ''not a list'')"
    by (simp add: list_items)
  have h2: "block_type (external_text_block (u ''list.md'')) = u ''text'' \<and>
      d_text (block_data (external_text_block (u ''list.md''))) = None \<and>
      d_textPath (block_data (external_text_block (u ''list.md''))) = Some (u ''list.md'')"
    by (simp add: block_defs)
  note inst = C7_list_regions
    [where a = "u ''- a''" and b = "u ''- b''" and n = "u ''not a list''"
       and pre = "[u ''first'']" and post = "[u ''last'']" and p = "u ''list.md''"
       and page_dir = "[]" and blk = "external_text_block (u ''list.md'')"
       and lines = "[]" and l = "[]"
       and env = "file_env (u ''- a'' @ [NL] @ u ''- b'' @ [NL] @ u ''not a list'')"]
  from inst have "is_item (u ''- a'') \<and> is_item (u ''- b'') \<and> \<not> is_item (u ''not a list'') \<longrightarrow>
      subseq [begin_itemize, item_line (u ''- a''), item_line (u ''- b''), end_itemize, u ''not a list'']
        (list_loop ([u ''first''] @ [u ''- a'', u ''- b'', u ''not a list''] @ [u ''last'']) 0 [])"
    by (elim conjE)
  from this h1
  have s: "subseq [begin_itemize, item_line (u ''- a''), item_line (u ''- b''), end_itemize, u ''not a list'']
        (list_loop ([u ''first''] @ [u ''- a'', u ''- b'', u ''not a list''] @ [u ''last'']) 0 [])"
    by (rule mp)
  from inst have "block_type (external_text_block (u ''list.md'')) = u ''text'' \<and>
      d_text (block_data (external_text_block (u ''list.md''))) = None \<and>
      d_textPath (block_data (external_text_block (u ''list.md''))) = Some (u ''list.md'') \<longrightarrow>
      fst (process_content_block (file_env (u ''- a'' @ [NL] @ u ''- b'' @ [NL] @ u ''not a list''))
          (external_text_block (u ''list.md'')) []) =
      join_nl (list_loop (split_nl (create_latex_text (join_nl (map process_line
        (split_nl (load_external_text
           (file_env (u ''- a'' @ [NL] @ u ''- b'' @ [NL] @ u ''not a list''))
           (u ''list.md'') [])))))) 0 [])"
    by (elim conjE)
  from this h2
  have f: "fst (process_content_block (file_env (u ''- a'' @ [NL] @ u ''- b'' @ [NL] @ u ''not a list''))
          (external_text_block (u ''list.md'')) []) =
      join_nl (list_loop (split_nl (create_latex_text (join_nl (map process_line
        (split_nl (load_external_text
           (file_env (u ''- a'' @ [NL] @ u ''- b'' @ [NL] @ u ''not a list''))
           (u ''list.md'') [])))))) 0 [])"
    by (rule mp)
  from h1 s h2 f show ?thesis
    by (intro conjI) (elim conjE, assumption)+
qed

lemma items_plain: "plain (u ''- a'' @ [NL] @ u ''- b'')"
  by (simp add: plain_def char_defs class_defs)

lemma items_latex: "create_latex_text (u ''- a'' @ [NL] @ u ''- b'') = u ''- a'' @ [NL] @ u ''- b''"
  unfolding create_latex_text_plain [OF items_plain] by (simp add: char_defs)

lemma items_lines: "split_nl (u ''- a'' @ [NL] @ u ''- b'') = [u ''- a'', u ''- b'']"
  by (simp add: char_defs)

lemma items_unchanged: "map process_line [u ''- a'', u ''- b''] = [u ''- a'', u ''- b'']"
  by (simp add: process_line_def strip_def char_defs class_defs)

text \<open>
  Claim C8: the list pass also runs when the text is given inline, so that an inline text
  whose lines start with \<^verbatim>\<open>- \<close> is wrapped in an itemize region as on the \<^verbatim>\<open>textPath\<close>
  path. The code does otherwise: the inline branch returns the formatted text followed by
  a blank line and never reaches the list pass. For the inline text \<^verbatim>\<open>- a\n- b\<close> the
  fragment is the text itself, without \<^verbatim>\<open>\begin{itemize}\<close>, while the same text behind a
  \<^verbatim>\<open>textPath\<close> becomes a list.
\<close>

theorem C8_inline_text_has_no_list_pass:
  "process_content_block env (inline_text_block (u ''- a'' @ [NL] @ u ''- b'')) page_dir =
     (u ''- a'' @ [NL] @ u ''- b'' @ [NL, NL], []) \<and>
   \<not> contains (fst (process_content_block env (inline_text_block (u ''- a'' @ [NL] @ u ''- b''))
                      page_dir)) begin_itemize \<and>
   process_content_block (file_env (u ''- a'' @ [NL] @ u ''- b'')) (external_text_block p) page_dir =
     (BSL # u ''begin{itemize}'' @ [NL] @ BSL # u ''item a'' @ [NL] @ BSL # u ''item b'' @ [NL]
        @ BSL # u ''end{itemize}'', [])"
proof -
  let ?T = "u ''- a'' @ [NL] @ u ''- b''"
  have "process_content_block env (inline_text_block ?T) page_dir = (create_latex_text ?T @ [NL, NL], [])"
    by (rule inline_body) (simp_all add: block_defs char_defs)
  then have inline: "process_content_block env (inline_text_block ?T) page_dir = (?T @ [NL, NL], [])"
    unfolding items_latex by simp
  have no_list: "\<not> contains (?T @ [NL, NL]) begin_itemize"
    by (simp add: begin_itemize_def char_defs)
  have j: "join_nl [u ''- a'', u ''- b''] = ?T"
    by simp
  have "process_content_block (file_env ?T) (external_text_block p) page_dir =
      (convert_lists (create_latex_text (join_nl (map process_line
         (split_nl (load_external_text (file_env ?T) p page_dir))))), [])"
    by (rule external_text) (simp_all add: block_defs)
  also have "load_external_text (file_env ?T) p page_dir = ?T"
    by (simp add: file_env_def)
  finally have external: "process_content_block (file_env ?T) (external_text_block p) page_dir =
     (BSL # u ''begin{itemize}'' @ [NL] @ BSL # u ''item a'' @ [NL] @ BSL # u ''item b'' @ [NL]
        @ BSL # u ''end{itemize}'', [])"
    unfolding items_lines items_unchanged j items_latex convert_lists_def
    by (simp add: list_loop_eq list_items begin_itemize_def end_itemize_def)
  from inline no_list external show ?thesis by simp
qed

section \<open>Values and records agree\<close>

text \<open>
  On the value of a block of the expected shape, the functions on values return, without
  an exception, what the functions on records return.
\<close>

lemma and_then_Inr: "and_then (Inr v) f = f v"
  by (simp add: and_then_def)

lemma and_then_Inl: "and_then (Inl e) f = Inl e"
  by (simp add: and_then_def)

lemma encode_ascii_append: "encode_ascii (s @ t) = encode_ascii s @ encode_ascii t"
  by (simp add: encode_ascii_def)

lemma map_of_entry_append:
  "map_of (entry key' v f @ rest) key =
     (if key = key' then (case v of None \<Rightarrow> map_of rest key | Some x \<Rightarrow> Some (f x))
      else map_of rest key)"
  by (cases v) (simp_all add: entry_def)

lemma map_of_entry_last:
  "map_of (entry key' v f) key = (if key = key' then map_option f v else None)"
  by (cases v) (simp_all add: entry_def)

lemma subscript_block_value:
  "subscript (block_value b) (u ''type'') = Inr (PyStr (block_type b))"
  "subscript (block_value b) (u ''data'') = Inr (data_value (block_data b))"
  by (simp_all add: block_value_def u_def)

lemma dict_get_data_value:
  "dict_get (data_value d) (u ''text'') dflt = Inr (case d_text d of None \<Rightarrow> dflt | Some s \<Rightarrow> PyStr s)"
  "dict_get (data_value d) (u ''textPath'') dflt = Inr (case d_textPath d of None \<Rightarrow> dflt | Some s \<Rightarrow> PyStr s)"
  "dict_get (data_value d) (u ''imagePath'') dflt = Inr (case d_imagePath d of None \<Rightarrow> dflt | Some s \<Rightarrow> PyStr s)"
  "dict_get (data_value d) (u ''tableData'') dflt =
     Inr (case d_tableData d of None \<Rightarrow> dflt
          | Some rows \<Rightarrow> PyList (map (\<lambda>row. PyList (map PyStr row)) rows))"
  "dict_get (data_value d) (u ''code'') dflt = Inr (case d_code d of None \<Rightarrow> dflt | Some s \<Rightarrow> PyStr s)"
  "dict_get (data_value d) (u ''language'') dflt = Inr (case d_language d of None \<Rightarrow> dflt | Some s \<Rightarrow> PyStr s)"
  "dict_get (data_value d) (u ''equation'') dflt = Inr (case d_equation d of None \<Rightarrow> dflt | Some s \<Rightarrow> PyStr s)"
  "dict_get (data_value d) (u ''caption'') dflt = Inr (case d_caption d of None \<Rightarrow> dflt | Some s \<Rightarrow> PyStr s)"
  "dict_get (data_value d) (u ''label'') dflt = Inr (case d_label d of None \<Rightarrow> dflt | Some s \<Rightarrow> PyStr s)"
  by (simp_all add: data_value_def map_of_entry_append map_of_entry_last u_def del: map_of_append split: option.splits)

lemma py_in_data_value:
  "py_in (u ''text'') (data_value d) = Inr (d_text d \<noteq> None)"
  "py_in (u ''textPath'') (data_value d) = Inr (d_textPath d \<noteq> None)"
  by (simp_all add: data_value_def map_of_entry_append map_of_entry_last u_def del: map_of_append split: option.splits)

lemma caption_line_py_str: "caption_line_py (PyStr s) = Inr (caption_line s)"
  by (simp add: caption_line_py_def caption_line_def as_str_def and_then_Inr)

lemma label_line_py_str: "label_line_py py_str (PyStr s) = label_line s"
  by (simp add: label_line_py_def label_line_def format_def)

lemmas typed_lookups = subscript_block_value dict_get_data_value py_in_data_value
  caption_line_py_str label_line_py_str and_then_Inr

lemma process_image_py_typed:
  "process_image_py env py_str (block_value b) page_dir = Inr (process_image env b page_dir)"
  by (simp add: process_image_py_def process_image_def typed_lookups get_default_def as_str_def
        split: option.splits)

lemma sequence_all_Inr:
  "(\<And>x. x \<in> set xs \<Longrightarrow> g x = Inr (f x)) \<Longrightarrow> sequence (map g xs) = Inr (map f xs)"
  by (induction xs) (simp_all add: and_then_Inr)

lemma table_row_typed:
  "table_row (PyList (map PyStr row)) =
     Inr (join (u '' & '') (map create_latex_text row) @ u '' '' @ [BSL, BSL] @ u '' ''
          @ BSL # u ''hline'' @ [NL])"
proof -
  have "sequence (map ((\<lambda>cell. and_then (as_str TypeError cell) (\<lambda>cell. Inr (create_latex_text cell)))
                       \<circ> PyStr) row) = Inr (map create_latex_text row)"
    by (rule sequence_all_Inr) (simp add: as_str_def and_then_Inr)
  then show ?thesis
    by (simp add: table_row_def and_then_Inr)
qed

lemma table_rows_typed:
  "sequence (map (table_row \<circ> (\<lambda>row. PyList (map PyStr row))) rows) =
     Inr (map (\<lambda>row. join (u '' & '') (map create_latex_text row) @ u '' '' @ [BSL, BSL] @ u '' ''
                        @ BSL # u ''hline'' @ [NL]) rows)"
  by (rule sequence_all_Inr) (simp add: table_row_typed)

lemma process_table_py_typed:
  "process_table_py py_str (block_value b) = Inr (process_table b)"
proof (cases "d_tableData (block_data b)")
  case None
  then show ?thesis
    by (simp add: process_table_py_def process_table_def typed_lookups get_default_def)
next
  case (Some rows)
  show ?thesis
  proof (cases rows)
    case Nil
    with Some show ?thesis
      by (simp add: process_table_py_def process_table_def typed_lookups get_default_def)
  next
    case (Cons first_row rest)
    let ?g = "\<lambda>row. PyList (map PyStr row)"
    let ?line = "\<lambda>row. join (u '' & '') (map create_latex_text row) @ u '' '' @ [BSL, BSL] @ u '' ''
                        @ BSL # u ''hline'' @ [NL]"
    let ?latex = "BSL # u ''begin{table}[htbp]'' @ [NL] @ BSL # u ''centering'' @ [NL]
            @ BSL # u ''begin{tabular}{'' @ join (u ''|'') (replicate (length first_row) (u ''c''))
            @ u ''}'' @ [NL] @ BSL # u ''hline'' @ [NL]
            @ concat (map ?line rows)
            @ BSL # u ''end{tabular}'' @ [NL]
            @ caption_line (get_default (d_caption (block_data b)) [])
            @ label_line (get_default (d_label (block_data b)) [])
            @ BSL # u ''end{table}'' @ [NL]"
    have first: "first_item (PyList (map ?g rows)) = Inr (PyList (map PyStr first_row))"
      using Cons by simp
    have nonempty: "rows \<noteq> []"
      using Cons by simp
    have typed: "process_table b = ?latex"
      using Some Cons by (simp add: process_table_def get_default_def Let_def)
    have "process_table_py py_str (block_value b) = Inr ?latex"
      using Some nonempty
      by (simp add: process_table_py_def typed_lookups get_default_def first table_rows_typed
            split: option.splits)
    with typed show ?thesis
      by simp
  qed
qed

lemma process_code_py_typed:
  "process_code_py py_str (block_value b) = Inr (process_code b)"
  by (simp add: process_code_py_def process_code_def typed_lookups get_default_def as_str_def
        format_def split: option.splits)

lemma process_equation_py_typed:
  "process_equation_py py_str (block_value b) = Inr (process_equation b)"
  by (simp add: process_equation_py_def process_equation_def typed_lookups get_default_def as_str_def
        split: option.splits)

lemma process_text_block_py_typed:
  "process_text_block_py env (block_value b) page_dir = Inr (process_text_block env (block_data b) page_dir)"
  by (simp add: process_text_block_py_def process_text_block_def typed_lookups as_str_def
        split: option.splits)

lemma process_content_block_py_typed:
  "process_content_block_py env py_str (block_value b) page_dir =
     Inr (process_content_block env b page_dir)"
  by (simp add: process_content_block_py_def process_content_block_def typed_lookups format_def
        process_text_block_py_typed process_image_py_typed process_table_py_typed
        process_code_py_typed process_equation_py_typed Let_def)

section \<open>The block loop\<close>

text \<open>The headings \<^verbatim>\<open># Title\<close> and \<^verbatim>\<open>## Title\<close> as blocks of a page.\<close>

lemma text_value_typed: "text_value t = block_value (inline_text_block t)"
  by (simp add: text_value_def block_value_def data_value_def entry_def block_defs)

lemma chapter_block:
  "process_content_block env (inline_text_block (u ''# Title'')) page_dir =
     (BSL # u ''chapter{Title}'' @ [NL, NL], [])"
proof -
  have l: "heading_level (u ''# Title'') = 1"
    by (simp add: char_defs)
  have s: "strip (drop 1 (u ''# Title'')) = u ''Title''"
    by (simp add: strip_def char_defs class_defs)
  have "process_content_block env (inline_text_block (u ''# Title'')) page_dir =
     (heading (heading_level (u ''# Title''))
        (create_latex_text (strip (drop (heading_level (u ''# Title'')) (u ''# Title'')))) @ [NL, NL], [])"
    by (rule inline_heading) (simp_all add: block_defs char_defs)
  then show ?thesis
    unfolding l s title_latex by (simp add: heading_def heading_command_def char_defs)
qed

lemma section_block:
  "process_content_block env (inline_text_block (u ''## Title'')) page_dir =
     (BSL # u ''section{Title}'' @ [NL, NL], [])"
proof -
  have l: "heading_level (u ''## Title'') = 2"
    by (simp add: char_defs)
  have s: "strip (drop 2 (u ''## Title'')) = u ''Title''"
    by (simp add: strip_def char_defs class_defs)
  have "process_content_block env (inline_text_block (u ''## Title'')) page_dir =
     (heading (heading_level (u ''## Title''))
        (create_latex_text (strip (drop (heading_level (u ''## Title'')) (u ''## Title'')))) @ [NL, NL], [])"
    by (rule inline_heading) (simp_all add: block_defs char_defs)
  then show ?thesis
    unfolding l s title_latex by (simp add: heading_def heading_command_def char_defs)
qed

lemma chapter_value:
  "process_content_block_py env py_str (text_value (u ''# Title'')) page_dir =
     Inr (BSL # u ''chapter{Title}'' @ [NL, NL], [])"
  by (simp only: text_value_typed process_content_block_py_typed chapter_block)

lemma section_value:
  "process_content_block_py env py_str (text_value (u ''## Title'')) page_dir =
     Inr (BSL # u ''section{Title}'' @ [NL, NL], [])"
  by (simp only: text_value_typed process_content_block_py_typed section_block)

text \<open>
  As long as the blocks return, the loop writes their fragments one after the other and
  collects their warnings; what follows them is processed as if it came first.
\<close>

lemma write_blocks_returned:
  "map (\<lambda>b. process_content_block_py env py_str b page_dir) earlier = map Inr outs \<Longrightarrow>
   write_blocks env py_str (earlier @ rest) page_dir =
     (case write_blocks env py_str rest page_dir of
        (written, log, raised) \<Rightarrow>
          (encode_ascii (concat (map fst outs)) @ written, concat (map snd outs) @ log, raised))"
proof (induction earlier arbitrary: outs)
  case Nil
  then show ?case
    by (simp add: encode_ascii_def split: prod.splits)
next
  case (Cons b earlier)
  then obtain out outs' where outs: "outs = out # outs'"
    and b: "process_content_block_py env py_str b page_dir = Inr out"
    and rest: "map (\<lambda>b. process_content_block_py env py_str b page_dir) earlier = map Inr outs'"
    by (cases outs) auto
  from Cons.IH [OF rest] b outs show ?case
    by (simp add: encode_ascii_append split: prod.splits)
qed

text \<open>The two branches that degrade, and the subscript that raises.\<close>

lemma missing_text_block:
  assumes "map_of block (u ''type'') = Some (PyStr (u ''text''))"
    and "map_of block (u ''data'') = Some data"
    and "py_in (u ''text'') data = Inr False"
    and "py_in (u ''textPath'') data = Inr False"
  shows "process_content_block_py env py_str (PyDict block) page_dir =
     Inr ([], [Warning (u ''Text block is missing both '' @ 39 # u ''text'' @ 39 # u '' and ''
                        @ 39 # u ''textPath'' @ [39])])"
  using assms
  by (simp add: process_content_block_py_def process_text_block_py_def and_then_Inr)

lemma unknown_block:
  assumes "map_of block (u ''type'') = Some kind"
    and "kind \<notin> set (map PyStr [u ''text'', u ''image'', u ''table'', u ''code'',
                                          u ''equation'', u ''listing''])"
  shows "process_content_block_py env py_str (PyDict block) page_dir =
     Inr ([], [Warning (u ''Unknown content block type: '' @ format py_str kind)])"
  using assms
  by (simp add: process_content_block_py_def and_then_Inr)

lemma no_data_raises:
  assumes "map_of block (u ''type'') = Some (PyStr (u ''text''))"
    and "map_of block (u ''data'') = None"
  shows "process_content_block_py env py_str (PyDict block) page_dir = Inl KeyError"
  using assms
  by (simp add: process_content_block_py_def process_text_block_py_def and_then_Inr and_then_Inl)

text \<open>A text block whose \<^verbatim>\<open>text\<close> is \<^verbatim>\<open>null\<close>: \<^verbatim>\<open>text.startswith\<close> raises.\<close>

lemma null_text_raises:
  "process_content_block_py env py_str
     (PyDict [(u ''type'', PyStr (u ''text'')), (u ''data'', PyDict [(u ''text'', PyNone)])])
     page_dir = Inl AttributeError"
  by (simp add: process_content_block_py_def process_text_block_py_def and_then_def as_str_def u_def)

lemma chapter_written:
  "encode_ascii (BSL # u ''chapter{Title}'' @ [NL, NL]) = BSL # u ''chapter{Title}'' @ [NL, NL]"
  by (simp add: encode_ascii_def backslashreplace_def char_defs)

section \<open>The encoding of the output file\<close>

text \<open>
  The escapes of \<^verbatim>\<open>backslashreplace\<close> for the code points U+00E9, U+0105 and U+1F600, and a
  page whose one block is a code block with the code U+00E9: the file receives the
  escape, not the character.
\<close>

lemma hex_2: "hex 2 n = [hex_digit (n div 16 mod 16), hex_digit (n mod 16)]"
proof -
  have "hex 2 n = hex (Suc (Suc 0)) n"
    by (rule arg_cong [where f = "\<lambda>w. hex w n"]) simp
  then show ?thesis
    by simp
qed

lemma hex_4: "hex 4 n = hex 2 (n div 16 div 16) @ hex 2 n"
proof -
  have "hex 4 n = hex (Suc (Suc (Suc (Suc 0)))) n"
    by (rule arg_cong [where f = "\<lambda>w. hex w n"]) simp
  then show ?thesis
    by (simp add: hex_2)
qed

lemma hex_8: "hex 8 n = hex 4 (n div 16 div 16 div 16 div 16) @ hex 4 n"
proof -
  have "hex 8 n = hex (Suc (Suc (Suc (Suc (Suc (Suc (Suc (Suc 0)))))))) n"
    by (rule arg_cong [where f = "\<lambda>w. hex w n"]) simp
  then show ?thesis
    by (simp add: hex_4 hex_2)
qed

lemma encode_ascii_examples:
  "encode_ascii [233] = BSL # u ''xe9''"
  "encode_ascii [261] = BSL # u ''u0105''"
  "encode_ascii [128512] = BSL # u ''U0001f600''"
  by (simp_all add: encode_ascii_def backslashreplace_def hex_2 hex_4 hex_8 hex_digit_def char_defs)

lemma code_block_returns:
  "process_content_block_py env py_str
     (PyDict [(u ''type'', PyStr (u ''code'')), (u ''data'', PyDict [(u ''code'', PyStr [233])])])
     page_dir =
   Inr (BSL # u ''begin{listing}[H]'' @ [NL]
        @ BSL # u ''begin{minted}[breaklines, linenos]{text}'' @ [NL]
        @ [233, NL]
        @ BSL # u ''end{minted}'' @ [NL]
        @ BSL # u ''end{listing}'' @ [NL, NL], [])"
  by (simp add: process_content_block_py_def process_code_py_def and_then_def as_str_def format_def
        caption_line_py_def label_line_py_def u_def)

lemma code_block_written:
  "write_blocks env py_str
     [PyDict [(u ''type'', PyStr (u ''code'')), (u ''data'', PyDict [(u ''code'', PyStr [233])])]]
     page_dir =
   (BSL # u ''begin{listing}[H]'' @ [NL]
    @ BSL # u ''begin{minted}[breaklines, linenos]{text}'' @ [NL]
    @ BSL # u ''xe9'' @ [NL]
    @ BSL # u ''end{minted}'' @ [NL]
    @ BSL # u ''end{listing}'' @ [NL, NL], [], None)"
  unfolding write_blocks.simps code_block_returns
  by (simp add: encode_ascii_def backslashreplace_def hex_2 hex_digit_def char_defs)

section \<open>Blocks that cannot be rendered\<close>

text \<open>
  Claim C9: \<^verbatim>\<open>process_content_block\<close> never raises for a block it cannot render: for every
  text block that is missing both the \<^verbatim>\<open>text\<close> and the \<^verbatim>\<open>textPath\<close> field it returns the
  empty fragment and records a warning, and so it does for every block of an unknown kind;
  in both cases processing continues.
  A text block that has no \<^verbatim>\<open>data\<close> entry is missing both fields, and on it the subscript
  \<^verbatim>\<open>content_block['data']\<close> raises \<^verbatim>\<open>KeyError\<close>. The loop of \<^verbatim>\<open>process_page\<close> catches the
  exception, logs an error and returns \<^verbatim>\<open>False\<close>: of a page with that block between two
  headings, the first heading is written and the second is not.
\<close>

theorem C9_text_block_without_data_raises:
  "process_content_block_py (file_env []) (\<lambda>v. []) (PyDict [(u ''type'', PyStr (u ''text''))]) [] =
     Inl KeyError
   \<and> write_blocks (file_env []) (\<lambda>v. [])
        [text_value (u ''# Title''), PyDict [(u ''type'', PyStr (u ''text''))],
         text_value (u ''## Title'')] [] =
     (BSL # u ''chapter{Title}'' @ [NL, NL], [], Some KeyError)"
proof -
  have raises: "process_content_block_py (file_env []) (\<lambda>v. [])
      (PyDict [(u ''type'', PyStr (u ''text''))]) [] = Inl KeyError"
    by (rule no_data_raises) (simp_all add: u_def)
  have "write_blocks (file_env []) (\<lambda>v. [])
        [text_value (u ''# Title''), PyDict [(u ''type'', PyStr (u ''text''))],
         text_value (u ''## Title'')] [] =
     (BSL # u ''chapter{Title}'' @ [NL, NL], [], Some KeyError)"
    by (simp add: chapter_value raises chapter_written)
  with raises show ?thesis
    by (rule conjI)
qed

text \<open>
  Claim C9, amended: for a text block that has a \<^verbatim>\<open>data\<close> entry in which neither \<^verbatim>\<open>text\<close>
  nor \<^verbatim>\<open>textPath\<close> is found, and for a block whose type is none of text, image, table,
  code, equation and listing (whatever else it holds: its \<^verbatim>\<open>data\<close> is not read),
  \<^verbatim>\<open>process_content_block\<close> returns the empty fragment and records its one warning, and
  processing continues: when the other blocks of the page return, the loop of
  \<^verbatim>\<open>process_page\<close> runs to its end, and the file holds their fragments, encoded, and the
  log the warning between theirs. A block on which \<^verbatim>\<open>process_content_block\<close> raises ends
  the page instead: the file keeps the fragments of the blocks before it, the blocks after
  it are not written, and \<^verbatim>\<open>process_page\<close> returns \<^verbatim>\<open>False\<close> on that exception. A text block
  without a \<^verbatim>\<open>data\<close> entry is such a block.
\<close>

theorem C9_degraded_blocks_continue:
  "((map_of block (u ''type'') = Some (PyStr (u ''text'')) \<and> map_of block (u ''data'') = Some data
       \<and> py_in (u ''text'') data = Inr False \<and> py_in (u ''textPath'') data = Inr False
       \<and> warning = Warning (u ''Text block is missing both '' @ 39 # u ''text'' @ 39 # u '' and ''
                               @ 39 # u ''textPath'' @ [39]))
     \<or> (map_of block (u ''type'') = Some kind
       \<and> kind \<notin> set (map PyStr [u ''text'', u ''image'', u ''table'', u ''code'', u ''equation'',
                                    u ''listing''])
       \<and> warning = Warning (u ''Unknown content block type: '' @ format py_str kind))
    \<longrightarrow>
      process_content_block_py env py_str (PyDict block) page_dir = Inr ([], [warning])
      \<and> (map (\<lambda>b. process_content_block_py env py_str b page_dir) earlier = map Inr earlier_outs
           \<and> map (\<lambda>b. process_content_block_py env py_str b page_dir) later = map Inr later_outs
         \<longrightarrow> write_blocks env py_str (earlier @ PyDict block # later) page_dir =
               (encode_ascii (concat (map fst (earlier_outs @ later_outs))),
                concat (map snd earlier_outs) @ warning # concat (map snd later_outs), None)))
   \<and> (map (\<lambda>b. process_content_block_py env py_str b page_dir) earlier = map Inr earlier_outs
        \<and> process_content_block_py env py_str raising page_dir = Inl e
      \<longrightarrow> write_blocks env py_str (earlier @ raising # later) page_dir =
            (encode_ascii (concat (map fst earlier_outs)), concat (map snd earlier_outs), Some e))
   \<and> (map_of block (u ''type'') = Some (PyStr (u ''text'')) \<and> map_of block (u ''data'') = None
      \<longrightarrow> process_content_block_py env py_str (PyDict block) page_dir = Inl KeyError)"
proof -
  let ?P = "\<lambda>b. process_content_block_py env py_str b page_dir"
  let ?missing = "Warning (u ''Text block is missing both '' @ 39 # u ''text'' @ 39 # u '' and ''
                               @ 39 # u ''textPath'' @ [39])"
  have continues: "write_blocks env py_str (earlier @ PyDict block # later) page_dir =
               (encode_ascii (concat (map fst (earlier_outs @ later_outs))),
                concat (map snd earlier_outs) @ warning # concat (map snd later_outs), None)"
    if r: "?P (PyDict block) = Inr ([], [warning])"
      and e: "map ?P earlier = map Inr earlier_outs" and l: "map ?P later = map Inr later_outs"
  proof -
    from write_blocks_returned [OF l, of "[]"]
    have "write_blocks env py_str later page_dir =
        (encode_ascii (concat (map fst later_outs)), concat (map snd later_outs), None)"
      by simp
    with write_blocks_returned [OF e, of "PyDict block # later"] r show ?thesis
      by (simp add: encode_ascii_append encode_ascii_def)
  qed
  have degraded: "?P (PyDict block) = Inr ([], [warning])
      \<and> (map ?P earlier = map Inr earlier_outs \<and> map ?P later = map Inr later_outs
         \<longrightarrow> write_blocks env py_str (earlier @ PyDict block # later) page_dir =
               (encode_ascii (concat (map fst (earlier_outs @ later_outs))),
                concat (map snd earlier_outs) @ warning # concat (map snd later_outs), None))"
    if "(map_of block (u ''type'') = Some (PyStr (u ''text'')) \<and> map_of block (u ''data'') = Some data
       \<and> py_in (u ''text'') data = Inr False \<and> py_in (u ''textPath'') data = Inr False
       \<and> warning = ?missing)
     \<or> (map_of block (u ''type'') = Some kind
       \<and> kind \<notin> set (map PyStr [u ''text'', u ''image'', u ''table'', u ''code'', u ''equation'',
                                    u ''listing''])
       \<and> warning = Warning (u ''Unknown content block type: '' @ format py_str kind))"
  proof -
    from that have "?P (PyDict block) = Inr ([], [warning])"
    proof (elim disjE conjE)
      assume "map_of block (u ''type'') = Some (PyStr (u ''text''))"
        "map_of block (u ''data'') = Some data"
        "py_in (u ''text'') data = Inr False" "py_in (u ''textPath'') data = Inr False"
        "warning = ?missing"
      then show ?thesis
        using missing_text_block [of block data env py_str page_dir] by simp
    next
      assume "map_of block (u ''type'') = Some kind"
        "kind \<notin> set (map PyStr [u ''text'', u ''image'', u ''table'', u ''code'', u ''equation'',
                                    u ''listing''])"
        "warning = Warning (u ''Unknown content block type: '' @ format py_str kind)"
      then show ?thesis
        using unknown_block [of block kind env py_str page_dir] by simp
    qed
    then have returned: "?P (PyDict block) = Inr ([], [warning])" .
    show ?thesis
    proof (intro conjI impI)
      show "?P (PyDict block) = Inr ([], [warning])"
        by (rule returned)
    next
      assume others: "map ?P earlier = map Inr earlier_outs \<and> map ?P later = map Inr later_outs"
      from others have e: "map ?P earlier = map Inr earlier_outs"
        by (rule conjunct1)
      from others have l: "map ?P later = map Inr later_outs"
        by (rule conjunct2)
      from returned e l
      show "write_blocks env py_str (earlier @ PyDict block # later) page_dir =
               (encode_ascii (concat (map fst (earlier_outs @ later_outs))),
                concat (map snd earlier_outs) @ warning # concat (map snd later_outs), None)"
        by (rule continues)
    qed
  qed
  have aborts: "write_blocks env py_str (earlier @ raising # later) page_dir =
            (encode_ascii (concat (map fst earlier_outs)), concat (map snd earlier_outs), Some e)"
    if e: "map ?P earlier = map Inr earlier_outs" and r: "?P raising = Inl e"
    using write_blocks_returned [OF e, of "raising # later"] r by simp
  have no_data: "?P (PyDict block) = Inl KeyError"
    if "map_of block (u ''type'') = Some (PyStr (u ''text''))" "map_of block (u ''data'') = None"
    using that by (rule no_data_raises)
  show ?thesis
  proof (intro conjI impI)
    assume "(map_of block (u ''type'') = Some (PyStr (u ''text'')) \<and> map_of block (u ''data'') = Some data
       \<and> py_in (u ''text'') data = Inr False \<and> py_in (u ''textPath'') data = Inr False
       \<and> warning = ?missing)
     \<or> (map_of block (u ''type'') = Some kind
       \<and> kind \<notin> set (map PyStr [u ''text'', u ''image'', u ''table'', u ''code'', u ''equation'',
                                    u ''listing''])
       \<and> warning = Warning (u ''Unknown content block type: '' @ format py_str kind))"
    from degraded [OF this] show "?P (PyDict block) = Inr ([], [warning])"
      by (rule conjunct1)
  qed (use degraded aborts no_data in blast)+
qed

text \<open>
  A page with a heading, a block that cannot be rendered and another heading. The block is
  of the unknown type \<^verbatim>\<open>video\<close> and has no \<^verbatim>\<open>data\<close>, or it is a text block with the empty
  dictionary as \<^verbatim>\<open>data\<close>: both headings are written. It is a text block with \<^verbatim>\<open>null\<close> as
  \<^verbatim>\<open>data\<close>: the page ends after the first heading.
\<close>

theorem C9_degraded_blocks_continue_witness:
  "process_content_block_py (file_env []) (\<lambda>v. []) (PyDict [(u ''type'', PyStr (u ''video''))]) [] =
     Inr ([], [Warning (u ''Unknown content block type: video'')])
   \<and> write_blocks (file_env []) (\<lambda>v. [])
        [text_value (u ''# Title''), PyDict [(u ''type'', PyStr (u ''video''))],
         text_value (u ''## Title'')] [] =
     (BSL # u ''chapter{Title}'' @ [NL, NL] @ BSL # u ''section{Title}'' @ [NL, NL],
      [Warning (u ''Unknown content block type: video'')], None)
   \<and> process_content_block_py (file_env []) (\<lambda>v. [])
        (PyDict [(u ''type'', PyStr (u ''text'')), (u ''data'', PyDict [])]) [] =
     Inr ([], [Warning (u ''Text block is missing both '' @ 39 # u ''text'' @ 39 # u '' and ''
                        @ 39 # u ''textPath'' @ [39])])
   \<and> write_blocks (file_env []) (\<lambda>v. [])
        [text_value (u ''# Title''),
         PyDict [(u ''type'', PyStr (u ''text'')), (u ''data'', PyDict [])],
         text_value (u ''## Title'')] [] =
     (BSL # u ''chapter{Title}'' @ [NL, NL] @ BSL # u ''section{Title}'' @ [NL, NL],
      [Warning (u ''Text block is missing both '' @ 39 # u ''text'' @ 39 # u '' and ''
                @ 39 # u ''textPath'' @ [39])], None)
   \<and> write_blocks (file_env []) (\<lambda>v. [])
        [text_value (u ''# Title''),
         PyDict [(u ''type'', PyStr (u ''text'')), (u ''data'', PyNone)],
         text_value (u ''## Title'')] [] =
     (BSL # u ''chapter{Title}'' @ [NL, NL], [], Some TypeError)
   \<and> process_content_block_py (file_env []) (\<lambda>v. [])
        (PyDict [(u ''type'', PyStr (u ''text'')), (u ''label'', PyStr (u ''x''))]) [] =
     Inl KeyError"
proof -
  let ?P = "\<lambda>b. process_content_block_py (file_env []) (\<lambda>v. []) b []"
  let ?chapter = "(BSL # u ''chapter{Title}'' @ [NL, NL], [] :: log_entry list)"
  let ?section = "(BSL # u ''section{Title}'' @ [NL, NL], [] :: log_entry list)"
  let ?missing = "Warning (u ''Text block is missing both '' @ 39 # u ''text'' @ 39 # u '' and ''
                        @ 39 # u ''textPath'' @ [39])"
  let ?unknown = "Warning (u ''Unknown content block type: video'')"
  let ?video = "[(u ''type'', PyStr (u ''video''))]"
  let ?empty = "[(u ''type'', PyStr (u ''text'')), (u ''data'', PyDict [])]"
  let ?null = "PyDict [(u ''type'', PyStr (u ''text'')), (u ''data'', PyNone)]"
  let ?bare = "[(u ''type'', PyStr (u ''text'')), (u ''label'', PyStr (u ''x''))]"
  have others: "map ?P [text_value (u ''# Title'')] = map Inr [?chapter]
      \<and> map ?P [text_value (u ''## Title'')] = map Inr [?section]"
    by (simp add: chapter_value section_value)
  note video = C9_degraded_blocks_continue
    [where block = ?video and kind = "PyStr (u ''video'')" and warning = ?unknown
       and data = PyNone and env = "file_env []" and py_str = "\<lambda>v. []" and page_dir = "[]"
       and earlier = "[text_value (u ''# Title'')]" and earlier_outs = "[?chapter]"
       and later = "[text_value (u ''## Title'')]" and later_outs = "[?section]"
       and raising = ?null and e = TypeError]
  have video_hyp: "(map_of ?video (u ''type'') = Some (PyStr (u ''text''))
       \<and> map_of ?video (u ''data'') = Some PyNone
       \<and> py_in (u ''text'') PyNone = Inr False \<and> py_in (u ''textPath'') PyNone = Inr False
       \<and> ?unknown = ?missing)
     \<or> (map_of ?video (u ''type'') = Some (PyStr (u ''video''))
       \<and> PyStr (u ''video'') \<notin> set (map PyStr [u ''text'', u ''image'', u ''table'', u ''code'',
                                                  u ''equation'', u ''listing''])
       \<and> ?unknown = Warning (u ''Unknown content block type: '' @ format (\<lambda>v. []) (PyStr (u ''video''))))"
    by (rule disjI2) (simp add: u_def format_def)
  from video have video_result: "?P (PyDict ?video) = Inr ([], [?unknown])
      \<and> (map ?P [text_value (u ''# Title'')] = map Inr [?chapter]
           \<and> map ?P [text_value (u ''## Title'')] = map Inr [?section]
         \<longrightarrow> write_blocks (file_env []) (\<lambda>v. [])
               ([text_value (u ''# Title'')] @ PyDict ?video # [text_value (u ''## Title'')]) [] =
               (encode_ascii (concat (map fst ([?chapter] @ [?section]))),
                concat (map snd [?chapter]) @ ?unknown # concat (map snd [?section]), None))"
    using video_hyp by (elim conjE) (rule mp)
  from video_result have v1: "?P (PyDict ?video) = Inr ([], [?unknown])"
    by (rule conjunct1)
  from video_result have "map ?P [text_value (u ''# Title'')] = map Inr [?chapter]
           \<and> map ?P [text_value (u ''## Title'')] = map Inr [?section]
         \<longrightarrow> write_blocks (file_env []) (\<lambda>v. [])
               ([text_value (u ''# Title'')] @ PyDict ?video # [text_value (u ''## Title'')]) [] =
               (encode_ascii (concat (map fst ([?chapter] @ [?section]))),
                concat (map snd [?chapter]) @ ?unknown # concat (map snd [?section]), None)"
    by (rule conjunct2)
  from this others have "write_blocks (file_env []) (\<lambda>v. [])
               ([text_value (u ''# Title'')] @ PyDict ?video # [text_value (u ''## Title'')]) [] =
               (encode_ascii (concat (map fst ([?chapter] @ [?section]))),
                concat (map snd [?chapter]) @ ?unknown # concat (map snd [?section]), None)"
    by (rule mp)
  then have v2: "write_blocks (file_env []) (\<lambda>v. [])
        [text_value (u ''# Title''), PyDict ?video, text_value (u ''## Title'')] [] =
     (BSL # u ''chapter{Title}'' @ [NL, NL] @ BSL # u ''section{Title}'' @ [NL, NL], [?unknown], None)"
    by (simp add: encode_ascii_def backslashreplace_def char_defs del: write_blocks.simps)
  note empty = C9_degraded_blocks_continue
    [where block = ?empty and kind = PyNone and warning = ?missing
       and data = "PyDict []" and env = "file_env []" and py_str = "\<lambda>v. []" and page_dir = "[]"
       and earlier = "[text_value (u ''# Title'')]" and earlier_outs = "[?chapter]"
       and later = "[text_value (u ''## Title'')]" and later_outs = "[?section]"
       and raising = ?null and e = TypeError]
  have empty_hyp: "(map_of ?empty (u ''type'') = Some (PyStr (u ''text''))
       \<and> map_of ?empty (u ''data'') = Some (PyDict [])
       \<and> py_in (u ''text'') (PyDict []) = Inr False \<and> py_in (u ''textPath'') (PyDict []) = Inr False
       \<and> ?missing = ?missing)
     \<or> (map_of ?empty (u ''type'') = Some PyNone
       \<and> PyNone \<notin> set (map PyStr [u ''text'', u ''image'', u ''table'', u ''code'',
                                      u ''equation'', u ''listing''])
       \<and> ?missing = Warning (u ''Unknown content block type: '' @ format (\<lambda>v. []) PyNone))"
    by (rule disjI1) (simp add: u_def)
  from empty have empty_result: "?P (PyDict ?empty) = Inr ([], [?missing])
      \<and> (map ?P [text_value (u ''# Title'')] = map Inr [?chapter]
           \<and> map ?P [text_value (u ''## Title'')] = map Inr [?section]
         \<longrightarrow> write_blocks (file_env []) (\<lambda>v. [])
               ([text_value (u ''# Title'')] @ PyDict ?empty # [text_value (u ''## Title'')]) [] =
               (encode_ascii (concat (map fst ([?chapter] @ [?section]))),
                concat (map snd [?chapter]) @ ?missing # concat (map snd [?section]), None))"
    using empty_hyp by (elim conjE) (rule mp)
  from empty_result have m1: "?P (PyDict ?empty) = Inr ([], [?missing])"
    by (rule conjunct1)
  from empty_result have "map ?P [text_value (u ''# Title'')] = map Inr [?chapter]
           \<and> map ?P [text_value (u ''## Title'')] = map Inr [?section]
         \<longrightarrow> write_blocks (file_env []) (\<lambda>v. [])
               ([text_value (u ''# Title'')] @ PyDict ?empty # [text_value (u ''## Title'')]) [] =
               (encode_ascii (concat (map fst ([?chapter] @ [?section]))),
                concat (map snd [?chapter]) @ ?missing # concat (map snd [?section]), None)"
    by (rule conjunct2)
  from this others have "write_blocks (file_env []) (\<lambda>v. [])
               ([text_value (u ''# Title'')] @ PyDict ?empty # [text_value (u ''## Title'')]) [] =
               (encode_ascii (concat (map fst ([?chapter] @ [?section]))),
                concat (map snd [?chapter]) @ ?missing # concat (map snd [?section]), None)"
    by (rule mp)
  then have m2: "write_blocks (file_env []) (\<lambda>v. [])
        [text_value (u ''# Title''), PyDict ?empty, text_value (u ''## Title'')] [] =
     (BSL # u ''chapter{Title}'' @ [NL, NL] @ BSL # u ''section{Title}'' @ [NL, NL], [?missing], None)"
    by (simp add: encode_ascii_def backslashreplace_def char_defs del: write_blocks.simps)
  have null_raises: "?P ?null = Inl TypeError"
    by (simp add: process_content_block_py_def process_text_block_py_def and_then_def u_def)
  from empty have "map ?P [text_value (u ''# Title'')] = map Inr [?chapter] \<and> ?P ?null = Inl TypeError
      \<longrightarrow> write_blocks (file_env []) (\<lambda>v. [])
            ([text_value (u ''# Title'')] @ ?null # [text_value (u ''## Title'')]) [] =
            (encode_ascii (concat (map fst [?chapter])), concat (map snd [?chapter]), Some TypeError)"
    by (elim conjE)
  moreover from others null_raises
  have "map ?P [text_value (u ''# Title'')] = map Inr [?chapter] \<and> ?P ?null = Inl TypeError"
    by (intro conjI) (elim conjE, assumption)+
  ultimately have "write_blocks (file_env []) (\<lambda>v. [])
            ([text_value (u ''# Title'')] @ ?null # [text_value (u ''## Title'')]) [] =
            (encode_ascii (concat (map fst [?chapter])), concat (map snd [?chapter]), Some TypeError)"
    by (rule mp)
  then have a1: "write_blocks (file_env []) (\<lambda>v. [])
        [text_value (u ''# Title''), ?null, text_value (u ''## Title'')] [] =
     (BSL # u ''chapter{Title}'' @ [NL, NL], [], Some TypeError)"
    by (simp add: encode_ascii_def backslashreplace_def char_defs del: write_blocks.simps)
  note bare = C9_degraded_blocks_continue
    [where block = ?bare and kind = PyNone and warning = ?missing
       and data = PyNone and env = "file_env []" and py_str = "\<lambda>v. []" and page_dir = "[]"
       and earlier = "[]" and earlier_outs = "[]" and later = "[]" and later_outs = "[]"
       and raising = ?null and e = TypeError]
  from bare have "map_of ?bare (u ''type'') = Some (PyStr (u ''text'')) \<and> map_of ?bare (u ''data'') = None
      \<longrightarrow> ?P (PyDict ?bare) = Inl KeyError"
    by (elim conjE)
  moreover have "map_of ?bare (u ''type'') = Some (PyStr (u ''text'')) \<and> map_of ?bare (u ''data'') = None"
    by (simp add: u_def)
  ultimately have b1: "?P (PyDict ?bare) = Inl KeyError"
    by (rule mp)
  from v1 v2 m1 m2 a1 b1 show ?thesis
    by (intro conjI)
qed

end
